theory Spec2Isabelle
  imports Main "HOL-Library.Sublist"
begin

section \<open>Python values and string operations\<close>

text \<open>
  The tool engine of \<^verbatim>\<open>final_tool.py\<close> works on dynamically typed argument values.
  The model keeps the scalar JSON values a function call can carry: \<^verbatim>\<open>None\<close>, booleans,
  integers and strings. Strings are lists of 8-bit characters, so the string operations
  below are those of Python on ASCII text.
\<close>

datatype pyval = VNone | VBool bool | VInt int | VStr string

text \<open>Python truth value of a scalar (\<^verbatim>\<open>if v:\<close>).\<close>

fun truthy :: "pyval \<Rightarrow> bool" where
  "truthy VNone = False"
| "truthy (VBool b) = b"
| "truthy (VInt i) = (i \<noteq> 0)"
| "truthy (VStr s) = (s \<noteq> [])"

text \<open>
  The exceptions the engine can meet: those of Python, \<open>ExternalError\<close> for one raised by
  an outside call that the code does not catch, and \<open>NotModelled\<close> where a format string
  leaves the part of \<^verbatim>\<open>str.format\<close> that is modelled here.
\<close>

datatype py_error =
    KeyError string
  | IndexError string
  | ValueError string
  | ExternalError string
  | NotModelled string

text \<open>Decimal digits of a natural number, and \<^verbatim>\<open>str(v)\<close> on scalars.\<close>

fun dec_digits :: "nat \<Rightarrow> string" where
  "dec_digits n =
     (if n < 10 then [''0123456789'' ! n]
      else dec_digits (n div 10) @ [''0123456789'' ! (n mod 10)])"

declare dec_digits.simps [simp del]

fun py_str :: "pyval \<Rightarrow> string" where
  "py_str VNone = ''None''"
| "py_str (VBool b) = (if b then ''True'' else ''False'')"
| "py_str (VInt i) = (if i < 0 then CHR ''-'' # dec_digits (nat (- i)) else dec_digits (nat i))"
| "py_str (VStr s) = s"

text \<open>\<^verbatim>\<open>str.lower\<close> and \<^verbatim>\<open>str.upper\<close> change the 26 ASCII letters.\<close>

definition lower_char :: "char \<Rightarrow> char" where
  "lower_char c =
     (case map_of (zip ''ABCDEFGHIJKLMNOPQRSTUVWXYZ'' ''abcdefghijklmnopqrstuvwxyz'') c of
        None \<Rightarrow> c | Some d \<Rightarrow> d)"

definition upper_char :: "char \<Rightarrow> char" where
  "upper_char c =
     (case map_of (zip ''abcdefghijklmnopqrstuvwxyz'' ''ABCDEFGHIJKLMNOPQRSTUVWXYZ'') c of
        None \<Rightarrow> c | Some d \<Rightarrow> d)"

definition py_lower :: "string \<Rightarrow> string" where
  "py_lower s = map lower_char s"

definition py_upper :: "string \<Rightarrow> string" where
  "py_upper s = map upper_char s"

text \<open>\<^verbatim>\<open>str.isspace\<close> on ASCII: tab, line feed, vertical tab, form feed, carriage return,
  the four separators 0x1C-0x1F and the space.\<close>

definition is_space :: "char \<Rightarrow> bool" where
  "is_space c = (let n = (of_char c :: nat) in (9 \<le> n \<and> n \<le> 13) \<or> (28 \<le> n \<and> n \<le> 32))"

definition py_strip :: "string \<Rightarrow> string" where
  "py_strip s = rev (dropWhile is_space (rev (dropWhile is_space s)))"

text \<open>\<^verbatim>\<open>sep.join(xs)\<close>.\<close>

fun py_join :: "string \<Rightarrow> string list \<Rightarrow> string" where
  "py_join sep [] = []"
| "py_join sep [x] = x"
| "py_join sep (x # y # ys) = x @ sep @ py_join sep (y # ys)"

fun starts_with :: "string \<Rightarrow> string \<Rightarrow> bool" where
  "starts_with [] s = True"
| "starts_with (p # ps) [] = False"
| "starts_with (p # ps) (c # cs) = (p = c \<and> starts_with ps cs)"

text \<open>\<^verbatim>\<open>sub in s\<close>: \<^verbatim>\<open>sub\<close> occurs in \<^verbatim>\<open>s\<close> as a contiguous substring.\<close>

fun py_in :: "string \<Rightarrow> string \<Rightarrow> bool" where
  "py_in sub [] = (sub = [])"
| "py_in sub (c # cs) = (starts_with sub (c # cs) \<or> py_in sub cs)"

text \<open>The text after the first occurrence of a non-empty \<^verbatim>\<open>sep\<close>, if there is one.\<close>

fun after_first :: "string \<Rightarrow> string \<Rightarrow> string option" where
  "after_first sep [] = (if sep = [] then Some [] else None)"
| "after_first sep (c # cs) =
     (if starts_with sep (c # cs) then Some (drop (length sep) (c # cs))
      else after_first sep cs)"

text \<open>\<^verbatim>\<open>s.split(sep, 1)[-1]\<close>: the empty separator raises \<^verbatim>\<open>ValueError\<close>; a separator
  that does not occur leaves the one-element list \<^verbatim>\<open>[s]\<close>.\<close>

definition split1_last :: "string \<Rightarrow> string \<Rightarrow> py_error + string" where
  "split1_last sep s =
     (if sep = [] then Inl (ValueError ''empty separator'')
      else (case after_first sep s of Some t \<Rightarrow> Inr t | None \<Rightarrow> Inr s))"

subsection \<open>\<^verbatim>\<open>str.format(**kwargs)\<close>\<close>

text \<open>
  A dictionary with insertion order is an association list; \<open>dict_set\<close> is the assignment
  \<^verbatim>\<open>d[k] = v\<close> (an existing key keeps its position).
\<close>

fun dict_set :: "'k \<Rightarrow> 'v \<Rightarrow> ('k \<times> 'v) list \<Rightarrow> ('k \<times> 'v) list" where
  "dict_set k v [] = [(k, v)]"
| "dict_set k v ((k', v') # d) = (if k' = k then (k, v) # d else (k', v') # dict_set k v d)"

type_synonym kwargs = "(string \<times> pyval) list"

definition is_digit :: "char \<Rightarrow> bool" where
  "is_digit c = (let n = (of_char c :: nat) in 48 \<le> n \<and> n \<le> 57)"

text \<open>
  The replacement of one field \<^verbatim>\<open>{name}\<close>. With keyword arguments only, an empty name
  (automatic numbering) or a number (a positional index) finds no positional argument;
  any other name is looked up among the keywords. Attribute and index lookups
  (\<^verbatim>\<open>{a.b}\<close>, \<^verbatim>\<open>{a[0]}\<close>), conversions and format specifications are not in the model.
\<close>

definition format_field :: "string \<Rightarrow> kwargs \<Rightarrow> py_error + string" where
  "format_field name kw =
     (if name = [] \<or> list_all is_digit name
        then Inl (IndexError ''Replacement index out of range for positional args tuple'')
      else if CHR ''.'' \<in> set name then Inl (NotModelled name)
      else (case map_of kw name of
              None \<Rightarrow> Inl (KeyError name)
            | Some v \<Rightarrow> Inr (py_str v)))"

text \<open>
  The scanner of CPython's formatter: \<open>format_text\<close> reads literal text, \<open>format_name\<close>
  reads a field name (kept reversed in its first argument) up to the closing brace. Fields are
  replaced from left to right, so the first failure is the one raised.
\<close>

fun format_text :: "string \<Rightarrow> kwargs \<Rightarrow> py_error + string"
and format_name :: "string \<Rightarrow> string \<Rightarrow> kwargs \<Rightarrow> py_error + string" where
  "format_text [] kw = Inr []"
| "format_text [c] kw =
     (if c = CHR ''{'' then Inl (ValueError ''Single { encountered in format string'')
      else if c = CHR ''}'' then Inl (ValueError ''Single } encountered in format string'')
      else Inr [c])"
| "format_text (c # d # cs) kw =
     (if c = CHR ''{'' then
        (if d = CHR ''{'' then
           (case format_text cs kw of Inl e \<Rightarrow> Inl e | Inr r \<Rightarrow> Inr (CHR ''{'' # r))
         else format_name [] (d # cs) kw)
      else if c = CHR ''}'' then
        (if d = CHR ''}'' then
           (case format_text cs kw of Inl e \<Rightarrow> Inl e | Inr r \<Rightarrow> Inr (CHR ''}'' # r))
         else Inl (ValueError ''Single } encountered in format string''))
      else (case format_text (d # cs) kw of Inl e \<Rightarrow> Inl e | Inr r \<Rightarrow> Inr (c # r)))"
| "format_name acc [] kw = Inl (ValueError ''expected } before end of string'')"
| "format_name acc (c # cs) kw =
     (if c = CHR ''}'' then
        (case format_field (rev acc) kw of
           Inl e \<Rightarrow> Inl e
         | Inr v \<Rightarrow> (case format_text cs kw of Inl e \<Rightarrow> Inl e | Inr r \<Rightarrow> Inr (v @ r)))
      else if c = CHR ''{'' then Inl (ValueError ''unexpected { in field name'')
      else if c = CHR ''['' \<or> c = CHR '':'' \<or> c = CHR ''!'' then Inl (NotModelled (rev acc))
      else format_name (c # acc) cs kw)"

definition py_format :: "string \<Rightarrow> kwargs \<Rightarrow> py_error + string" where
  "py_format template kw = format_text template kw"

section \<open>Conversation history and parameter extraction\<close>

text \<open>
  A \<^verbatim>\<open>types.Part\<close> carries a text or a function call, a \<^verbatim>\<open>types.Content\<close> a role and its
  parts. The arguments of a function call are a dictionary from parameter names to values.
\<close>

record function_call =
  fc_name :: string
  fc_args :: "string \<rightharpoonup> pyval"

record part =
  part_text :: "string option"
  part_function_call :: "function_call option"

record content =
  content_role :: "string option"
  content_parts :: "part list"

text \<open>The inner loop of \<^verbatim>\<open>extract_value_from_history\<close>: the non-empty texts of the parts.\<close>

fun text_parts :: "part list \<Rightarrow> string list" where
  "text_parts [] = []"
| "text_parts (p # ps) =
     (case part_text p of
        None \<Rightarrow> text_parts ps
      | Some t \<Rightarrow> (if t \<noteq> [] then t # text_parts ps else text_parts ps))"

text \<open>
  The outer loop, over the history already reversed and with the parameter name already
  lower-cased.
\<close>

fun scan_history :: "string \<Rightarrow> content list \<Rightarrow> py_error + string option" where
  "scan_history param_lower [] = Inr None"
| "scan_history param_lower (item # items) =
     (if content_role item \<noteq> Some ''user'' then scan_history param_lower items
      else
        let content = py_lower (py_join '' '' (text_parts (content_parts item))) in
        if content = [] then scan_history param_lower items
        else if py_in param_lower content then
          (case split1_last param_lower content of
             Inl e \<Rightarrow> Inl e
           | Inr rest \<Rightarrow>
               let tail = py_strip rest in
               if tail \<noteq> [] then Inr (Some tail) else scan_history param_lower items)
        else scan_history param_lower items)"

definition extract_value_from_history :: "string \<Rightarrow> content list \<Rightarrow> py_error + string option" where
  "extract_value_from_history param history = scan_history (py_lower param) (rev history)"

section \<open>The tool registry\<close>

text \<open>
  An entry of \<^verbatim>\<open>USER_TOOLS\<close>. The keys \<^verbatim>\<open>tool_name\<close>, \<^verbatim>\<open>type\<close>, \<^verbatim>\<open>description\<close> and
  \<^verbatim>\<open>parameters\<close> are always there; \<^verbatim>\<open>required\<close> and the keys that depend on the type may
  be absent, which is \<open>None\<close>.
\<close>

record property =
  prop_type :: string
  prop_description :: "string option"
  prop_enum :: "pyval list option"
  prop_default :: "pyval option"

record tool_def =
  td_tool_name :: string
  td_type :: string
  td_description :: string
  td_properties :: "(string \<times> property) list"
  td_required :: "string list option"
  td_api_url :: "string option"
  td_http_method :: "string option"
  td_geocoding_url :: "string option"
  td_prompt_template :: "string option"
  td_response_text :: "string option"

type_synonym registry = "(string \<times> tool_def) list"

section \<open>The outside world\<close>

text \<open>
  What the engine calls outside itself: HTTP through \<^verbatim>\<open>requests\<close>, the auxiliary model
  through \<^verbatim>\<open>client.models.generate_content\<close>, and \<^verbatim>\<open>run_rag\<close>. Each is a function of the
  environment; \<open>Inl msg\<close> is an exception with message \<open>msg\<close>. For HTTP the answer is that
  of the request followed by \<^verbatim>\<open>resp.json()\<close>, so \<open>Inl\<close> covers transport and parsing
  failures. Every call made is recorded in a trace.
\<close>

record http_request =
  http_method :: string
  http_url :: string
  http_json :: "kwargs option"
  http_timeout :: nat

datatype effect =
    HttpCall http_request
  | AuxModelCall string string
  | RagCall string

record ('j, 'r) env =
  requests_request :: "http_request \<Rightarrow> string + 'j"
  generate_content :: "string \<Rightarrow> string \<Rightarrow> string + string option"
  run_rag :: "string \<Rightarrow> string + 'r"

definition SUMMARY_MODEL_NAME :: string where
  "SUMMARY_MODEL_NAME = ''gemini-2.5-flash-lite''"

text \<open>The value a tool produces: a JSON answer, a text, or the dictionary \<^verbatim>\<open>{"error": msg}\<close>.\<close>

datatype 'j tool_content = CJson 'j | CText string | CError string

text \<open>
  \<^verbatim>\<open>call_custom_api\<close>. The URL is formatted before the \<^verbatim>\<open>try\<close> block, so a failure of
  \<^verbatim>\<open>format\<close> is raised to the caller; a failure of the request or of \<^verbatim>\<open>resp.json()\<close>
  is caught and returned as \<^verbatim>\<open>{"error": str(exc)}\<close>.
\<close>

definition call_custom_api ::
  "('j, 'r) env \<Rightarrow> tool_def \<Rightarrow> kwargs \<Rightarrow> (py_error + 'j tool_content) \<times> effect list" where
  "call_custom_api world tool args =
     (case td_api_url tool of
        None \<Rightarrow> (Inl (KeyError ''api_url''), [])
      | Some template \<Rightarrow>
          (case py_format template args of
             Inl e \<Rightarrow> (Inl e, [])
           | Inr url \<Rightarrow>
               let method = py_upper (case td_http_method tool of None \<Rightarrow> ''GET'' | Some m \<Rightarrow> m);
                   req =
                     (if method = ''GET'' then
                        \<lparr>http_method = ''GET'', http_url = url, http_json = None, http_timeout = 10\<rparr>
                      else if method = ''POST'' then
                        \<lparr>http_method = ''POST'', http_url = url, http_json = Some args, http_timeout = 10\<rparr>
                      else
                        \<lparr>http_method = method, http_url = url, http_json = Some args, http_timeout = 10\<rparr>)
               in (case requests_request world req of
                     Inl msg \<Rightarrow> (Inr (CError msg), [HttpCall req])
                   | Inr j \<Rightarrow> (Inr (CJson j), [HttpCall req]))))"

text \<open>\<^verbatim>\<open>handle_prompt_tool\<close>: nothing is caught here.\<close>

definition handle_prompt_tool ::
  "('j, 'r) env \<Rightarrow> tool_def \<Rightarrow> kwargs \<Rightarrow> (py_error + string) \<times> effect list" where
  "handle_prompt_tool world tool args =
     (case td_prompt_template tool of
        None \<Rightarrow> (Inl (KeyError ''prompt_template''), [])
      | Some template \<Rightarrow>
          (case py_format template args of
             Inl e \<Rightarrow> (Inl e, [])
           | Inr prompt \<Rightarrow>
               (case generate_content world SUMMARY_MODEL_NAME prompt of
                  Inl msg \<Rightarrow> (Inl (ExternalError msg), [AuxModelCall SUMMARY_MODEL_NAME prompt])
                | Inr txt \<Rightarrow>
                    (Inr (py_strip (case txt of None \<Rightarrow> [] | Some t \<Rightarrow> t)),
                     [AuxModelCall SUMMARY_MODEL_NAME prompt]))))"

section \<open>\<^verbatim>\<open>execute_tool_calls\<close>\<close>

text \<open>
  The loop over the required parameters (``fill required params''). One step takes
  \<^verbatim>\<open>final_args\<close> and \<^verbatim>\<open>missing\<close> and returns them updated.
\<close>

definition fill_param ::
  "(string \<rightharpoonup> pyval) \<Rightarrow> content list \<Rightarrow> string \<Rightarrow> kwargs \<times> string list
     \<Rightarrow> py_error + kwargs \<times> string list" where
  "fill_param args history param st =
     (let (final_args, missing) = st in
      case (case args param of None \<Rightarrow> None | Some v \<Rightarrow> if truthy v then Some v else None) of
        Some v \<Rightarrow> Inr (dict_set param v final_args, missing)
      | None \<Rightarrow>
          (case extract_value_from_history param history of
             Inl e \<Rightarrow> Inl e
           | Inr (Some auto_value) \<Rightarrow>
               if auto_value \<noteq> [] then Inr (dict_set param (VStr auto_value) final_args, missing)
               else Inr (dict_set param (VStr []) final_args, missing @ [param])
           | Inr None \<Rightarrow> Inr (dict_set param (VStr []) final_args, missing @ [param])))"

fun fill_required ::
  "(string \<rightharpoonup> pyval) \<Rightarrow> content list \<Rightarrow> string list \<Rightarrow> kwargs \<times> string list
     \<Rightarrow> py_error + kwargs \<times> string list" where
  "fill_required args history [] st = Inr st"
| "fill_required args history (param # params) st =
     (case fill_param args history param st of
        Inl e \<Rightarrow> Inl e
      | Inr st' \<Rightarrow> fill_required args history params st')"

text \<open>The entries of \<^verbatim>\<open>pending_params\<close> and of \<^verbatim>\<open>summary_items\<close>, and the four results.\<close>

record pending_entry =
  pe_missing :: "string list"
  pe_args :: kwargs

record 'j summary_item =
  si_name :: string
  si_type :: string
  si_content :: "'j tool_content"

datatype ('j, 'r) tool_results =
    PendingJson "(string \<times> pending_entry) list"
  | StaticOnly string
  | Mixed "'j summary_item list"
  | RagMode 'r

text \<open>The variables of the main loop, with the trace of the outside calls made so far.\<close>

record 'j loop_state =
  pending_params :: "(string \<times> pending_entry) list"
  static_texts :: "string list"
  summary_items :: "'j summary_item list"
  all_static :: bool
  trace :: "effect list"

definition initial_state :: "'j loop_state" where
  "initial_state =
     \<lparr>pending_params = [], static_texts = [], summary_items = [], all_static = True, trace = []\<rparr>"

text \<open>
  One iteration either goes on to the next call, or returns from the function (the
  \<^verbatim>\<open>rag\<close> branch), or raises; the trace at that moment comes with it.
\<close>

datatype ('j, 'r) step =
    Next "'j loop_state"
  | Return "('j, 'r) tool_results" "effect list"
  | Raise py_error "effect list"

definition add_summary :: "string \<Rightarrow> string \<Rightarrow> 'j tool_content \<Rightarrow> 'j loop_state \<Rightarrow> 'j loop_state" where
  "add_summary tool_name tool_type result st =
     st\<lparr>summary_items :=
          summary_items st @ [\<lparr>si_name = tool_name, si_type = tool_type, si_content = result\<rparr>]\<rparr>"

text \<open>The \<^verbatim>\<open>static\<close> branch: the formatted template if there is one, else the fixed text.\<close>

definition static_result :: "tool_def \<Rightarrow> kwargs \<Rightarrow> py_error + string" where
  "static_result tool_def final_args =
     (case td_prompt_template tool_def of
        Some template \<Rightarrow> py_format template final_args
      | None \<Rightarrow> Inr (case td_response_text tool_def of None \<Rightarrow> [] | Some t \<Rightarrow> t))"

text \<open>
  The second half of an iteration (``execute''): the call of the tool according to its type and
  the new entry of \<^verbatim>\<open>summary_items\<close>.
\<close>

definition dispatch ::
  "('j, 'r) env \<Rightarrow> tool_def \<Rightarrow> string \<Rightarrow> kwargs \<Rightarrow> string \<Rightarrow> 'j loop_state \<Rightarrow> ('j, 'r) step" where
  "dispatch world tool_def tool_name final_args user_input st =
     (let tool_type = td_type tool_def in
      if tool_type = ''api'' then
        (case call_custom_api world tool_def final_args of
           (Inl e, effs) \<Rightarrow> Raise e (trace st @ effs)
         | (Inr result, effs) \<Rightarrow>
             Next (add_summary tool_name tool_type result (st\<lparr>trace := trace st @ effs\<rparr>)))
      else if tool_type = ''prompt'' then
        (case handle_prompt_tool world tool_def final_args of
           (Inl e, effs) \<Rightarrow> Raise e (trace st @ effs)
         | (Inr result, effs) \<Rightarrow>
             Next (add_summary tool_name tool_type (CText result) (st\<lparr>trace := trace st @ effs\<rparr>)))
      else if tool_type = ''rag'' then
        (let user_query = (if user_input \<noteq> [] then user_input else []) in
         case run_rag world user_query of
           Inl msg \<Rightarrow> Raise (ExternalError msg) (trace st @ [RagCall user_query])
         | Inr rag_result \<Rightarrow> Return (RagMode rag_result) (trace st @ [RagCall user_query]))
      else if tool_type = ''static'' then
        (case static_result tool_def final_args of
           Inl e \<Rightarrow> Raise e (trace st)
         | Inr text \<Rightarrow>
             Next (add_summary tool_name tool_type (CText text)
                     (st\<lparr>static_texts := static_texts st @ [text]\<rparr>)))
      else
        Next (add_summary tool_name tool_type (CError ''Unsupported tool type.'') st))"

text \<open>The body of the loop over the tool calls.\<close>

definition process_call ::
  "('j, 'r) env \<Rightarrow> registry \<Rightarrow> content list \<Rightarrow> string \<Rightarrow> function_call \<Rightarrow> 'j loop_state
     \<Rightarrow> ('j, 'r) step" where
  "process_call world user_tools history user_input fc st =
     (let tool_name = fc_name fc; args = fc_args fc in
      case map_of user_tools tool_name of
        None \<Rightarrow> Next (st\<lparr>all_static := False\<rparr>)
      | Some tool_def \<Rightarrow>
          let tool_type = td_type tool_def;
              st1 = (if tool_type \<noteq> ''static'' then st\<lparr>all_static := False\<rparr> else st);
              required_params = (case td_required tool_def of None \<Rightarrow> [] | Some r \<Rightarrow> r)
          in
          (case fill_required args history required_params ([], []) of
             Inl e \<Rightarrow> Raise e (trace st1)
           | Inr (final_args, missing) \<Rightarrow>
               if missing \<noteq> [] then
                 Next (st1\<lparr>pending_params :=
                         dict_set tool_name \<lparr>pe_missing = missing, pe_args = final_args\<rparr>
                           (pending_params st1)\<rparr>)
               else dispatch world tool_def tool_name final_args user_input st1))"

fun run_calls ::
  "('j, 'r) env \<Rightarrow> registry \<Rightarrow> content list \<Rightarrow> string \<Rightarrow> function_call list \<Rightarrow> 'j loop_state
     \<Rightarrow> ('j, 'r) step" where
  "run_calls world user_tools history user_input [] st = Next st"
| "run_calls world user_tools history user_input (fc # fcs) st =
     (case process_call world user_tools history user_input fc st of
        Next st' \<Rightarrow> run_calls world user_tools history user_input fcs st'
      | Return r effs \<Rightarrow> Return r effs
      | Raise e effs \<Rightarrow> Raise e effs)"

text \<open>The response of the main model: candidates, the first one's content, its parts.\<close>

record candidate =
  cand_content :: "content option"

record response =
  resp_candidates :: "candidate list"

fun collect_tool_calls :: "part list \<Rightarrow> function_call list" where
  "collect_tool_calls [] = []"
| "collect_tool_calls (p # ps) =
     (case part_function_call p of
        None \<Rightarrow> collect_tool_calls ps
      | Some fc \<Rightarrow> fc # collect_tool_calls ps)"

text \<open>What follows the loop: the choice of the overall result.\<close>

definition aggregate :: "function_call list \<Rightarrow> 'j loop_state \<Rightarrow> ('j, 'r) tool_results option" where
  "aggregate tool_calls st =
     (if pending_params st \<noteq> [] then Some (PendingJson (pending_params st))
      else if tool_calls \<noteq> [] \<and> all_static st \<and> static_texts st \<noteq> []
        then Some (StaticOnly (py_join [CHR 0x0A, CHR 0x0A] (static_texts st)))
      else if summary_items st \<noteq> [] then Some (Mixed (summary_items st))
      else None)"

text \<open>
  \<^verbatim>\<open>execute_tool_calls\<close> returns the result (or the exception raised) and the trace of the
  outside calls it made.
\<close>

definition execute_tool_calls ::
  "('j, 'r) env \<Rightarrow> registry \<Rightarrow> response \<Rightarrow> content list \<Rightarrow> string
     \<Rightarrow> (py_error + ('j, 'r) tool_results option) \<times> effect list" where
  "execute_tool_calls world user_tools resp history user_input =
     (case resp_candidates resp of
        [] \<Rightarrow> (Inr None, [])
      | cand # _ \<Rightarrow>
          (case cand_content cand of
             None \<Rightarrow> (Inr None, [])
           | Some model_content \<Rightarrow>
               let tool_calls = collect_tool_calls (content_parts model_content) in
               if tool_calls = [] then (Inr None, [])
               else
                 (case run_calls world user_tools history user_input tool_calls initial_state of
                    Next st \<Rightarrow> (Inr (aggregate tool_calls st), trace st)
                  | Return r effs \<Rightarrow> (Inr (Some r), effs)
                  | Raise e effs \<Rightarrow> (Inl e, effs))))"

text \<open>
  What \<^verbatim>\<open>chatbot\<close> does with the result: only the status \<^verbatim>\<open>mixed\<close> with a non-empty list
  leads to the summarization call, whose input is the list of summary items.
\<close>

definition summarizer_calls :: "('j, 'r) tool_results option \<Rightarrow> 'j summary_item list list" where
  "summarizer_calls tool_results =
     (case tool_results of
        Some (Mixed items) \<Rightarrow> (if items \<noteq> [] then [items] else [])
      | _ \<Rightarrow> [])"

section \<open>\<^verbatim>\<open>convert_workflow_to_user_tools\<close>\<close>

text \<open>
  The workflow configuration as the frontend sends it: every key of a descriptor may be
  absent (\<open>None\<close>), and the code reads each one with \<^verbatim>\<open>get\<close> and a default.
\<close>

record input_parameter =
  ip_name :: "string option"
  ip_type :: "string option"
  ip_description :: "string option"
  ip_enum :: "pyval list option"
  ip_default :: "pyval option"
  ip_required :: "bool option"

record integration =
  in_tool_id :: "string option"
  in_tool_name :: "string option"
  in_tool_description :: "string option"
  in_when_to_use :: "string option"
  in_type :: "string option"
  in_url :: "string option"
  in_method :: "string option"
  in_geocoding_url :: "string option"
  in_response_text :: "string option"
  in_response_prompt :: "string option"
  in_input_parameters :: "input_parameter list option"

record workflow_config =
  wf_integrations :: "integration list option"

text \<open>\<^verbatim>\<open>d.get(key, default)\<close> and the truth value of \<^verbatim>\<open>d.get(key)\<close> for a string.\<close>

definition get_or :: "'a \<Rightarrow> 'a option \<Rightarrow> 'a" where
  "get_or d x = (case x of None \<Rightarrow> d | Some v \<Rightarrow> v)"

definition nonempty :: "string option \<Rightarrow> bool" where
  "nonempty x = (case x of None \<Rightarrow> False | Some v \<Rightarrow> v \<noteq> [])"

text \<open>
  \<^verbatim>\<open>re.sub(r'\{\{(\w+)\}\}', r'{\1}', s)\<close>: from left to right, each \<^verbatim>\<open>{{word}}\<close> becomes
  \<^verbatim>\<open>{word}\<close>. Since a closing brace is no word character, the greedy \<^verbatim>\<open>\w+\<close> takes the
  longest run of word characters or the match fails at this position.
\<close>

definition is_word_char :: "char \<Rightarrow> bool" where
  "is_word_char c =
     (let n = (of_char c :: nat) in
      (48 \<le> n \<and> n \<le> 57) \<or> (65 \<le> n \<and> n \<le> 90) \<or> n = 95 \<or> (97 \<le> n \<and> n \<le> 122))"

definition match_placeholder :: "string \<Rightarrow> (string \<times> string) option" where
  "match_placeholder s =
     (case s of
        a # b # t \<Rightarrow>
          if a = CHR ''{'' \<and> b = CHR ''{'' \<and> takeWhile is_word_char t \<noteq> [] then
            (case dropWhile is_word_char t of
               c # d # rest \<Rightarrow>
                 if c = CHR ''}'' \<and> d = CHR ''}'' then Some (takeWhile is_word_char t, rest)
                 else None
             | _ \<Rightarrow> None)
          else None
      | _ \<Rightarrow> None)"

function sub_placeholders :: "string \<Rightarrow> string" where
  "sub_placeholders [] = []"
| "sub_placeholders (c # cs) =
     (case match_placeholder (c # cs) of
        Some (w, rest) \<Rightarrow> CHR ''{'' # w @ CHR ''}'' # sub_placeholders rest
      | None \<Rightarrow> c # sub_placeholders cs)"
  by pat_completeness auto
termination
proof (relation "measure length", goal_cases)
  case 1
  show ?case by simp
next
  case 2
  show ?case by simp
next
  case 3
  have shorter: "length r < length t" if "dropWhile is_word_char t = x # y # r" for t r x y
  proof -
    have "length r < length (dropWhile is_word_char t)" using that by simp
    also have "\<dots> \<le> length t" by (rule length_dropWhile_le)
    finally show ?thesis .
  qed
  from 3 show ?case
    by (auto simp: match_placeholder_def split: list.splits if_splits dest!: shorter)
qed

text \<open>The loop over \<^verbatim>\<open>input_parameters\<close>: the properties of the schema and the required names.\<close>

definition convert_parameter ::
  "input_parameter \<Rightarrow> (string \<times> property) list \<times> string list
     \<Rightarrow> (string \<times> property) list \<times> string list" where
  "convert_parameter param st =
     (let (properties, required_params) = st;
          param_name = get_or [] (ip_name param);
          param_type = get_or ''string'' (ip_type param);
          param_desc = get_or [] (ip_description param);
          prop = \<lparr>prop_type = param_type,
                  prop_description = (if param_desc \<noteq> [] then Some param_desc else None),
                  prop_enum = ip_enum param,
                  prop_default = ip_default param\<rparr>
      in (dict_set param_name prop properties,
          if get_or False (ip_required param) then required_params @ [param_name]
          else required_params))"

fun convert_parameters ::
  "input_parameter list \<Rightarrow> (string \<times> property) list \<times> string list
     \<Rightarrow> (string \<times> property) list \<times> string list" where
  "convert_parameters [] st = st"
| "convert_parameters (param # params) st = convert_parameters params (convert_parameter param st)"

text \<open>\<^verbatim>\<open>tool_name.lower().replace(" ", "_")\<close>.\<close>

definition sanitize :: "string \<Rightarrow> string" where
  "sanitize tool_name = map (\<lambda>c. if c = CHR '' '' then CHR ''_'' else c) (py_lower tool_name)"

definition tool_key_of :: "integration \<Rightarrow> string" where
  "tool_key_of integration =
     (let tool_id = get_or [] (in_tool_id integration);
          tool_name = get_or [] (in_tool_name integration)
      in if tool_id \<noteq> [] then tool_id else sanitize tool_name)"

definition tool_type_of :: "integration \<Rightarrow> string" where
  "tool_type_of integration =
     (let tool_type = get_or [] (in_type integration) in
      if tool_type = [] then
        (if nonempty (in_url integration) then ''api''
         else if nonempty (in_response_text integration) then ''static''
         else if nonempty (in_response_prompt integration) then ''prompt''
         else ''static'')
      else tool_type)"

text \<open>The body of the loop over the integrations: the entry built for one descriptor.\<close>

definition convert_integration :: "integration \<Rightarrow> tool_def" where
  "convert_integration integration =
     (let tool_name = get_or [] (in_tool_name integration);
          tool_key = tool_key_of integration;
          tool_type = tool_type_of integration;
          (properties, required_params) =
             convert_parameters (get_or [] (in_input_parameters integration)) ([], []);
          description =
             (if nonempty (in_tool_description integration)
                then get_or [] (in_tool_description integration)
              else if nonempty (in_when_to_use integration)
                then get_or [] (in_when_to_use integration)
              else tool_name);
          tool_entry =
             \<lparr>td_tool_name = tool_key, td_type = tool_type, td_description = description,
              td_properties = properties,
              td_required = (if required_params \<noteq> [] then Some required_params else None),
              td_api_url = None, td_http_method = None, td_geocoding_url = None,
              td_prompt_template = None, td_response_text = None\<rparr>
      in
      if tool_type = ''api'' then
        tool_entry\<lparr>td_api_url := Some (get_or [] (in_url integration)),
                   td_http_method :=
                     (if nonempty (in_method integration) then in_method integration else None),
                   td_geocoding_url :=
                     (if nonempty (in_geocoding_url integration) then in_geocoding_url integration
                      else None)\<rparr>
      else if tool_type = ''prompt'' then
        tool_entry\<lparr>td_prompt_template :=
                     Some (sub_placeholders (get_or [] (in_response_prompt integration)))\<rparr>
      else if tool_type = ''static'' then
        (case in_response_text integration of
           Some t \<Rightarrow> tool_entry\<lparr>td_response_text := Some t\<rparr>
         | None \<Rightarrow>
             (case in_response_prompt integration of
                Some response_prompt \<Rightarrow>
                  tool_entry\<lparr>td_prompt_template := Some (sub_placeholders response_prompt)\<rparr>
              | None \<Rightarrow> tool_entry))
      else tool_entry)"

fun convert_integrations :: "integration list \<Rightarrow> registry \<Rightarrow> registry" where
  "convert_integrations [] user_tools = user_tools"
| "convert_integrations (integration # integrations) user_tools =
     convert_integrations integrations
       (dict_set (tool_key_of integration) (convert_integration integration) user_tools)"

definition convert_workflow_to_user_tools :: "workflow_config \<Rightarrow> registry" where
  "convert_workflow_to_user_tools workflow_config =
     convert_integrations (get_or [] (wf_integrations workflow_config)) []"

section \<open>The audio loop of \<^verbatim>\<open>final.py\<close>\<close>

text \<open>
  \<^verbatim>\<open>AudioLoop\<close> runs its tasks on one asyncio event loop, so the code between two
  suspension points is one atomic step. The state holds the two queues and the flag, what
  the capture and playback tasks hold across a suspension, and a record of what was handed
  to the output device and to the session. The tasks shown are those of audio: capture
  (\<^verbatim>\<open>listen_audio\<close>), sending (\<^verbatim>\<open>send_realtime\<close>), receiving (\<^verbatim>\<open>receive_audio\<close>) and
  playback (\<^verbatim>\<open>play_audio\<close>), and the picture task (\<^verbatim>\<open>get_frames\<close> in the default mode
  \<^verbatim>\<open>camera\<close>, \<^verbatim>\<open>get_screen\<close> in the mode \<^verbatim>\<open>screen\<close>, none in the mode \<^verbatim>\<open>none\<close>), which puts
  its pictures on the same outbound queue. The transcriptions and the tool calls of a
  response touch neither queue nor the flag and are left out.
\<close>

type_synonym bytes = "nat list"

text \<open>
  A message for the session is a dictionary with the keys \<^verbatim>\<open>data\<close> and \<^verbatim>\<open>mime_type\<close>: the raw
  bytes of an audio chunk, or the base64 text of a picture.
\<close>

datatype payload = RawBytes bytes | Base64 string

record out_message =
  msg_data :: payload
  msg_mime_type :: string

record audio_loop =
  audio_in_queue :: "bytes list"
  out_queue :: "out_message list"
  ai_speaking :: bool
  put_waiting :: "out_message option"
  picture_waiting :: "out_message option"
  sending :: "out_message option"
  writing :: "bytes option"
  played :: "bytes list"
  sent :: "out_message list"

definition OUT_QUEUE_MAXSIZE :: nat where
  "OUT_QUEUE_MAXSIZE = 5"

text \<open>The state after \<^verbatim>\<open>__init__\<close> and the creation of the queues in \<^verbatim>\<open>run\<close>.\<close>

definition initial_loop :: audio_loop where
  "initial_loop =
     \<lparr>audio_in_queue = [], out_queue = [], ai_speaking = False, put_waiting = None,
      picture_waiting = None, sending = None, writing = None, played = [], sent = []\<rparr>"

text \<open>\<^verbatim>\<open>while not self.audio_in_queue.empty(): self.audio_in_queue.get_nowait()\<close>\<close>

fun drain_queue :: "'a list \<Rightarrow> 'a list" where
  "drain_queue [] = []"
| "drain_queue (x # q) = drain_queue q"

text \<open>
  The atomic steps:
  \<^item> \<open>MicRead d\<close>: the read of a chunk returns \<open>d\<close>; the flag is tested and, if it is false,
    the frame is put on the bounded queue, which suspends the task when the queue is full;
  \<^item> \<open>PutResume\<close>: the suspended \<^verbatim>\<open>put\<close> finds room and appends its frame;
  \<^item> \<open>PicturePut b\<close>: the picture task has taken the picture \<open>b\<close> and slept a second; it
    puts the picture on the bounded queue, without a look at the flag, and is suspended when
    the queue is full; \<open>PictureResume\<close>: its suspended \<^verbatim>\<open>put\<close> finds room;
  \<^item> \<open>SendGet\<close>: \<^verbatim>\<open>send_realtime\<close> takes the head of the outbound queue and starts sending
    it; \<open>SendDone\<close>: the send has returned;
  \<^item> \<open>ReceiveData d\<close>: a response of the turn carries the audio \<open>d\<close>;
  \<^item> \<open>TurnComplete\<close>: the turn has ended and the inbound queue is emptied;
  \<^item> \<open>PlayDequeue\<close>: \<^verbatim>\<open>play_audio\<close> takes the head of the inbound queue, sets the flag and
    starts writing;
  \<^item> \<open>PlayWritten\<close>: the write has returned and the flag is cleared.
  A step that cannot happen in a state (its task is suspended elsewhere) is \<open>None\<close>.
\<close>

datatype event =
    MicRead bytes
  | PutResume
  | PicturePut string
  | PictureResume
  | SendGet
  | SendDone
  | ReceiveData bytes
  | TurnComplete
  | PlayDequeue
  | PlayWritten

definition pcm_frame :: "bytes \<Rightarrow> out_message" where
  "pcm_frame d = \<lparr>msg_data = RawBytes d, msg_mime_type = ''audio/pcm''\<rparr>"

definition jpeg_frame :: "string \<Rightarrow> out_message" where
  "jpeg_frame b = \<lparr>msg_data = Base64 b, msg_mime_type = ''image/jpeg''\<rparr>"

fun loop_step :: "event \<Rightarrow> audio_loop \<Rightarrow> audio_loop option" where
  "loop_step (MicRead d) s =
     (if put_waiting s \<noteq> None then None
      else if \<not> ai_speaking s then
        (if length (out_queue s) < OUT_QUEUE_MAXSIZE
           then Some (s\<lparr>out_queue := out_queue s @ [pcm_frame d]\<rparr>)
         else Some (s\<lparr>put_waiting := Some (pcm_frame d)\<rparr>))
      else Some s)"
| "loop_step PutResume s =
     (case put_waiting s of
        None \<Rightarrow> None
      | Some msg \<Rightarrow>
          if length (out_queue s) < OUT_QUEUE_MAXSIZE
            then Some (s\<lparr>out_queue := out_queue s @ [msg], put_waiting := None\<rparr>)
          else None)"
| "loop_step (PicturePut b) s =
     (if picture_waiting s \<noteq> None then None
      else if length (out_queue s) < OUT_QUEUE_MAXSIZE
        then Some (s\<lparr>out_queue := out_queue s @ [jpeg_frame b]\<rparr>)
      else Some (s\<lparr>picture_waiting := Some (jpeg_frame b)\<rparr>))"
| "loop_step PictureResume s =
     (case picture_waiting s of
        None \<Rightarrow> None
      | Some msg \<Rightarrow>
          if length (out_queue s) < OUT_QUEUE_MAXSIZE
            then Some (s\<lparr>out_queue := out_queue s @ [msg], picture_waiting := None\<rparr>)
          else None)"
| "loop_step SendGet s =
     (if sending s \<noteq> None then None
      else
        (case out_queue s of
           [] \<Rightarrow> None
         | msg # q \<Rightarrow> Some (s\<lparr>out_queue := q, sending := Some msg\<rparr>)))"
| "loop_step SendDone s =
     (case sending s of
        None \<Rightarrow> None
      | Some msg \<Rightarrow> Some (s\<lparr>sending := None, sent := sent s @ [msg]\<rparr>))"
| "loop_step (ReceiveData d) s =
     (if d \<noteq> [] then Some (s\<lparr>audio_in_queue := audio_in_queue s @ [d]\<rparr>) else Some s)"
| "loop_step TurnComplete s = Some (s\<lparr>audio_in_queue := drain_queue (audio_in_queue s)\<rparr>)"
| "loop_step PlayDequeue s =
     (if writing s \<noteq> None then None
      else
        (case audio_in_queue s of
           [] \<Rightarrow> None
         | bytestream # q \<Rightarrow>
             Some (s\<lparr>audio_in_queue := q, ai_speaking := True, writing := Some bytestream,
                     played := played s @ [bytestream]\<rparr>)))"
| "loop_step PlayWritten s =
     (case writing s of
        None \<Rightarrow> None
      | Some bytestream \<Rightarrow> Some (s\<lparr>ai_speaking := False, writing := None\<rparr>))"

fun run_schedule :: "event list \<Rightarrow> audio_loop \<Rightarrow> audio_loop option" where
  "run_schedule [] s = Some s"
| "run_schedule (e # es) s = (case loop_step e s of None \<Rightarrow> None | Some s' \<Rightarrow> run_schedule es s')"

text \<open>
  Read off a schedule alone: the audio received in it, the frames captured at a moment
  when the flag, as the playback steps of the schedule have left it, is false, and the
  pictures taken.
\<close>

fun pictures_taken :: "event list \<Rightarrow> string list" where
  "pictures_taken [] = []"
| "pictures_taken (PicturePut b # es) = b # pictures_taken es"
| "pictures_taken (e # es) = pictures_taken es"

fun received_audio :: "event list \<Rightarrow> bytes list" where
  "received_audio [] = []"
| "received_audio (ReceiveData d # es) = (if d \<noteq> [] then d # received_audio es else received_audio es)"
| "received_audio (e # es) = received_audio es"

fun captured_while_silent :: "bool \<Rightarrow> event list \<Rightarrow> bytes list" where
  "captured_while_silent speaking [] = []"
| "captured_while_silent speaking (MicRead d # es) =
     (if speaking then captured_while_silent speaking es
      else d # captured_while_silent speaking es)"
| "captured_while_silent speaking (PlayDequeue # es) = captured_while_silent True es"
| "captured_while_silent speaking (PlayWritten # es) = captured_while_silent False es"
| "captured_while_silent speaking (e # es) = captured_while_silent speaking es"

section \<open>Notions used in the statements\<close>

text \<open>The function calls that \<^verbatim>\<open>execute_tool_calls\<close> finds in a response.\<close>

definition response_tool_calls :: "response \<Rightarrow> function_call list" where
  "response_tool_calls resp =
     (case resp_candidates resp of
        [] \<Rightarrow> []
      | cand # _ \<Rightarrow>
          (case cand_content cand of
             None \<Rightarrow> []
           | Some model_content \<Rightarrow> collect_tool_calls (content_parts model_content)))"

text \<open>
  What the resolution of the required parameters gives for a call: the entry that goes to
  \<^verbatim>\<open>pending_params\<close> when a parameter of a registered tool is missing.
\<close>

definition pending_entry_of :: "registry \<Rightarrow> content list \<Rightarrow> function_call \<Rightarrow> pending_entry option" where
  "pending_entry_of user_tools history fc =
     (case map_of user_tools (fc_name fc) of
        None \<Rightarrow> None
      | Some tool_def \<Rightarrow>
          (case fill_required (fc_args fc) history
                  (case td_required tool_def of None \<Rightarrow> [] | Some r \<Rightarrow> r) ([], []) of
             Inl e \<Rightarrow> None
           | Inr (final_args, missing) \<Rightarrow>
               if missing \<noteq> [] then Some \<lparr>pe_missing = missing, pe_args = final_args\<rparr>
               else None))"

definition needs_input :: "registry \<Rightarrow> content list \<Rightarrow> function_call \<Rightarrow> bool" where
  "needs_input user_tools history fc = (pending_entry_of user_tools history fc \<noteq> None)"

text \<open>
  The outside calls that the iteration for one call makes: none unless the tool is
  registered and every required parameter is resolved; then those of the tool's type.
\<close>

definition dispatch_effects :: "('j, 'r) env \<Rightarrow> tool_def \<Rightarrow> kwargs \<Rightarrow> string \<Rightarrow> effect list" where
  "dispatch_effects world tool_def final_args user_input =
     (if td_type tool_def = ''api'' then snd (call_custom_api world tool_def final_args)
      else if td_type tool_def = ''prompt'' then snd (handle_prompt_tool world tool_def final_args)
      else if td_type tool_def = ''rag'' then [RagCall user_input]
      else [])"

definition call_effects ::
  "('j, 'r) env \<Rightarrow> registry \<Rightarrow> content list \<Rightarrow> string \<Rightarrow> function_call \<Rightarrow> effect list" where
  "call_effects world user_tools history user_input fc =
     (case map_of user_tools (fc_name fc) of
        None \<Rightarrow> []
      | Some tool_def \<Rightarrow>
          (case fill_required (fc_args fc) history
                  (case td_required tool_def of None \<Rightarrow> [] | Some r \<Rightarrow> r) ([], []) of
             Inl e \<Rightarrow> []
           | Inr (final_args, missing) \<Rightarrow>
               if missing \<noteq> [] then []
               else dispatch_effects world tool_def final_args user_input))"


text \<open>
  The resolution of one required parameter in the words of the specification, with the two
  details the code adds: the text parts of a turn are joined by single spaces, and a turn in
  which nothing but white space follows the name gives no value.
\<close>

datatype resolution = Supplied pyval | Inferred string | Missing

definition spec_turn_value :: "string \<Rightarrow> content \<Rightarrow> string option" where
  "spec_turn_value name_lower turn =
     (if content_role turn = Some ''user'' then
        (case after_first name_lower (py_lower (py_join '' '' (text_parts (content_parts turn)))) of
           None \<Rightarrow> None
         | Some rest \<Rightarrow> (if py_strip rest \<noteq> [] then Some (py_strip rest) else None))
      else None)"

definition spec_history_value :: "string \<Rightarrow> content list \<Rightarrow> string option" where
  "spec_history_value param history =
     (case List.map_filter (spec_turn_value (py_lower param)) (rev history) of
        [] \<Rightarrow> None
      | t # _ \<Rightarrow> Some t)"

definition spec_resolve_param :: "(string \<rightharpoonup> pyval) \<Rightarrow> content list \<Rightarrow> string \<Rightarrow> resolution" where
  "spec_resolve_param args history param =
     (case (case args param of None \<Rightarrow> None | Some v \<Rightarrow> if truthy v then Some v else None) of
        Some v \<Rightarrow> Supplied v
      | None \<Rightarrow>
          (case spec_history_value param history of
             Some t \<Rightarrow> Inferred t
           | None \<Rightarrow> Missing))"

text \<open>
  The messages handed on, oldest first: those sent, the one being sent and those in the
  outbound queue. Audio frames and pictures are told apart by their \<^verbatim>\<open>mime_type\<close>.
\<close>

definition holding :: "'a option \<Rightarrow> 'a list" where
  "holding x = (case x of None \<Rightarrow> [] | Some m \<Rightarrow> [m])"

definition handed_on :: "audio_loop \<Rightarrow> out_message list" where
  "handed_on s = sent s @ holding (sending s) @ out_queue s"

definition is_audio :: "out_message \<Rightarrow> bool" where
  "is_audio m = (msg_mime_type m = ''audio/pcm'')"

text \<open>A suspended \<^verbatim>\<open>put\<close> of the capture task holds an audio frame, one of the picture task a picture.\<close>

definition waiting_sorted :: "audio_loop \<Rightarrow> bool" where
  "waiting_sorted s =
     (list_all is_audio (holding (put_waiting s)) \<and>
      list_all (\<lambda>m. \<not> is_audio m) (holding (picture_waiting s)))"

section \<open>Configurations of the examples\<close>

text \<open>A descriptor and a parameter with no key at all (\<^verbatim>\<open>{}\<close>).\<close>

definition no_keys :: integration where
  "no_keys =
     \<lparr>in_tool_id = None, in_tool_name = None, in_tool_description = None, in_when_to_use = None,
      in_type = None, in_url = None, in_method = None, in_geocoding_url = None,
      in_response_text = None, in_response_prompt = None, in_input_parameters = None\<rparr>"

definition required_string :: "string \<Rightarrow> string \<Rightarrow> input_parameter" where
  "required_string name desc =
     \<lparr>ip_name = Some name, ip_type = Some ''string'', ip_description = Some desc,
      ip_enum = None, ip_default = None, ip_required = Some True\<rparr>"

text \<open>Six of the integrations of \<^verbatim>\<open>WORKFLOW_CONFIG\<close> in \<^verbatim>\<open>final_tool.py\<close>.\<close>

definition WORKFLOW_CONFIG :: workflow_config where
  "WORKFLOW_CONFIG = \<lparr>wf_integrations = Some [
     no_keys\<lparr>in_tool_id := Some ''crypto_api'', in_tool_name := Some ''Crypto Price'',
       in_tool_description := Some ''Get current price of a cryptocurrency.'',
       in_when_to_use := Some ''User asks for crypto prices.'',
       in_type := Some ''api'',
       in_url := Some ''https://api.coingecko.com/api/v3/simple/price?ids={coin}&vs_currencies=usd'',
       in_method := Some ''GET'',
       in_input_parameters := Some [required_string ''coin'' ''Cryptocurrency ID'']\<rparr>,
     no_keys\<lparr>in_tool_id := Some ''quote_api'', in_tool_name := Some ''Random Quote'',
       in_tool_description := Some ''Get a random motivational or inspirational quote.'',
       in_when_to_use := Some ''User asks for a quote.'',
       in_type := Some ''api'',
       in_url := Some ''https://api.quotable.io/random'',
       in_method := Some ''GET'',
       in_input_parameters := Some []\<rparr>,
     no_keys\<lparr>in_tool_id := Some ''cloth_combination'', in_tool_name := Some ''Cloth Combination'',
       in_tool_description := Some ''Give clothing suggestion.'',
       in_when_to_use := Some ''User asks what to wear.'',
       in_type := Some ''static'',
       in_response_text := Some ''Okay, you look good in any clothes, but I suggest you wear light color clothes today.'',
       in_input_parameters := Some []\<rparr>,
     no_keys\<lparr>in_tool_id := Some ''schedule_meeting'', in_tool_name := Some ''Schedule Meeting'',
       in_tool_description := Some ''Schedules a meeting with the provided details.'',
       in_when_to_use := Some ''User asks to schedule or create a meeting.'',
       in_type := Some ''static'',
       in_response_prompt := Some ''Okay, I have scheduled a {{duration_minutes}} minute meeting with {{attendee_email}} on '{{topic}}'.'',
       in_input_parameters := Some [
         required_string ''attendee_email'' ''Attendee email'',
         required_string ''topic'' ''Meeting topic'',
         (required_string ''duration_minutes'' ''Duration in minutes'')\<lparr>ip_type := Some ''integer''\<rparr>]\<rparr>,
     no_keys\<lparr>in_tool_id := Some ''motivation_tool'', in_tool_name := Some ''Motivation'',
       in_tool_description := Some ''Give a motivational message using a provided topic.'',
       in_when_to_use := Some ''User asks for motivation on a topic.'',
       in_type := Some ''prompt'',
       in_response_prompt := Some ''Give a short motivational message about: {{topic}}'',
       in_input_parameters := Some [required_string ''topic'' ''Topic to motivate about'']\<rparr>,
     no_keys\<lparr>in_tool_id := Some ''rag_tool'', in_tool_name := Some ''RAG Tool'',
       in_tool_description := Some ''Retrieves information from internal knowledge base using RAG.'',
       in_when_to_use := Some ''When user asks questions about internal documents or knowledge base.'',
       in_type := Some ''rag'',
       in_input_parameters := Some [required_string ''user_query'' ''User's query'']\<rparr>]\<rparr>"

definition USER_TOOLS :: registry where
  "USER_TOOLS = convert_workflow_to_user_tools WORKFLOW_CONFIG"

text \<open>
  A configuration a frontend can send: an \<^verbatim>\<open>api\<close> tool whose URL template names a
  parameter that is declared but not required, next to a fixed static tool.
\<close>

definition PRICE_CONFIG :: workflow_config where
  "PRICE_CONFIG = \<lparr>wf_integrations = Some [
     no_keys\<lparr>in_tool_id := Some ''price'', in_type := Some ''api'',
       in_url := Some ''https://x/{coin}'',
       in_input_parameters := Some [
         (required_string ''coin'' ''Cryptocurrency ID'')\<lparr>ip_required := Some False\<rparr>]\<rparr>,
     no_keys\<lparr>in_tool_id := Some ''hello'', in_type := Some ''static'',
       in_response_text := Some ''Hello!''\<rparr>]\<rparr>"

text \<open>A descriptor with an unknown type and no payload, and one with no key at all.\<close>

definition BROKEN_CONFIG :: workflow_config where
  "BROKEN_CONFIG = \<lparr>wf_integrations = Some [no_keys\<lparr>in_tool_id := Some ''broken'', in_type := Some ''sql''\<rparr>, no_keys]\<rparr>"

text \<open>
  A world without network: every HTTP request fails, the auxiliary model answers with a
  fixed text, retrieval echoes the query.
\<close>

definition offline_world :: "(string, string) env" where
  "offline_world =
     \<lparr>requests_request = (\<lambda>req. Inl ''connection refused''),
      generate_content = (\<lambda>model prompt. Inr (Some '' Keep going. '')),
      run_rag = (\<lambda>query. Inr (''answer to: '' @ query))\<rparr>"

definition call :: "string \<Rightarrow> (string \<times> pyval) list \<Rightarrow> function_call" where
  "call name args = \<lparr>fc_name = name, fc_args = map_of args\<rparr>"

definition model_response :: "function_call list \<Rightarrow> response" where
  "model_response fcs =
     \<lparr>resp_candidates =
        [\<lparr>cand_content =
            Some \<lparr>content_role = Some ''model'',
                  content_parts = map (\<lambda>fc. \<lparr>part_text = None, part_function_call = Some fc\<rparr>) fcs\<rparr>\<rparr>]\<rparr>"

definition user_turn :: "string \<Rightarrow> content" where
  "user_turn t =
     \<lparr>content_role = Some ''user'', content_parts = [\<lparr>part_text = Some t, part_function_call = None\<rparr>]\<rparr>"

text \<open>Batches and histories of the examples.\<close>

definition quote_and_motivation :: "function_call list" where
  "quote_and_motivation = [call ''quote_api'' [], call ''motivation_tool'' []]"

definition clothes_and_price :: "function_call list" where
  "clothes_and_price = [call ''cloth_combination'' [], call ''crypto_api'' [(''coin'', VStr [])]]"


definition price_and_hello :: "function_call list" where
  "price_and_hello = [call ''price'' [(''coin'', VStr ''bitcoin'')], call ''hello'' []]"

definition meeting_of_no_length :: "function_call list" where
  "meeting_of_no_length =
     [call ''schedule_meeting''
        [(''attendee_email'', VStr ''ann@example.org''), (''topic'', VStr ''plans''),
         (''duration_minutes'', VInt 0)]]"

text \<open>
  A configuration with a static tool whose template names a parameter that is declared but
  not required.
\<close>

definition GREET_CONFIG :: workflow_config where
  "GREET_CONFIG = \<lparr>wf_integrations = Some [
     no_keys\<lparr>in_tool_id := Some ''hello'', in_type := Some ''static'',
       in_response_text := Some ''Hello!''\<rparr>,
     no_keys\<lparr>in_tool_id := Some ''greet'', in_type := Some ''static'',
       in_response_prompt := Some ''Hello {{name}}!'',
       in_input_parameters := Some [
         (required_string ''name'' ''Name of the user'')\<lparr>ip_required := Some False\<rparr>]\<rparr>]\<rparr>"


section \<open>Evaluating the examples\<close>

lemma USER_TOOLS_value:
  "USER_TOOLS =
     [(''crypto_api'',
       \<lparr>td_tool_name = ''crypto_api'', td_type = ''api'',
        td_description = ''Get current price of a cryptocurrency.'',
        td_properties =
          [(''coin'', \<lparr>prop_type = ''string'', prop_description = Some ''Cryptocurrency ID'',
                       prop_enum = None, prop_default = None\<rparr>)],
        td_required = Some [''coin''],
        td_api_url = Some ''https://api.coingecko.com/api/v3/simple/price?ids={coin}&vs_currencies=usd'',
        td_http_method = Some ''GET'', td_geocoding_url = None,
        td_prompt_template = None, td_response_text = None\<rparr>),
      (''quote_api'',
       \<lparr>td_tool_name = ''quote_api'', td_type = ''api'',
        td_description = ''Get a random motivational or inspirational quote.'',
        td_properties = [], td_required = None,
        td_api_url = Some ''https://api.quotable.io/random'',
        td_http_method = Some ''GET'', td_geocoding_url = None,
        td_prompt_template = None, td_response_text = None\<rparr>),
      (''cloth_combination'',
       \<lparr>td_tool_name = ''cloth_combination'', td_type = ''static'',
        td_description = ''Give clothing suggestion.'',
        td_properties = [], td_required = None,
        td_api_url = None, td_http_method = None, td_geocoding_url = None,
        td_prompt_template = None,
        td_response_text = Some ''Okay, you look good in any clothes, but I suggest you wear light color clothes today.''\<rparr>),
      (''schedule_meeting'',
       \<lparr>td_tool_name = ''schedule_meeting'', td_type = ''static'',
        td_description = ''Schedules a meeting with the provided details.'',
        td_properties =
          [(''attendee_email'', \<lparr>prop_type = ''string'', prop_description = Some ''Attendee email'',
                                 prop_enum = None, prop_default = None\<rparr>),
           (''topic'', \<lparr>prop_type = ''string'', prop_description = Some ''Meeting topic'',
                        prop_enum = None, prop_default = None\<rparr>),
           (''duration_minutes'', \<lparr>prop_type = ''integer'', prop_description = Some ''Duration in minutes'',
                                   prop_enum = None, prop_default = None\<rparr>)],
        td_required = Some [''attendee_email'', ''topic'', ''duration_minutes''],
        td_api_url = None, td_http_method = None, td_geocoding_url = None,
        td_prompt_template = Some ''Okay, I have scheduled a {duration_minutes} minute meeting with {attendee_email} on '{topic}'.'',
        td_response_text = None\<rparr>),
      (''motivation_tool'',
       \<lparr>td_tool_name = ''motivation_tool'', td_type = ''prompt'',
        td_description = ''Give a motivational message using a provided topic.'',
        td_properties =
          [(''topic'', \<lparr>prop_type = ''string'', prop_description = Some ''Topic to motivate about'',
                        prop_enum = None, prop_default = None\<rparr>)],
        td_required = Some [''topic''],
        td_api_url = None, td_http_method = None, td_geocoding_url = None,
        td_prompt_template = Some ''Give a short motivational message about: {topic}'',
        td_response_text = None\<rparr>),
      (''rag_tool'',
       \<lparr>td_tool_name = ''rag_tool'', td_type = ''rag'',
        td_description = ''Retrieves information from internal knowledge base using RAG.'',
        td_properties =
          [(''user_query'', \<lparr>prop_type = ''string'', prop_description = Some ''User's query'',
                             prop_enum = None, prop_default = None\<rparr>)],
        td_required = Some [''user_query''],
        td_api_url = None, td_http_method = None, td_geocoding_url = None,
        td_prompt_template = None, td_response_text = None\<rparr>)]"
  by (simp add: USER_TOOLS_def WORKFLOW_CONFIG_def convert_workflow_to_user_tools_def
      convert_integration_def convert_parameter_def tool_key_of_def tool_type_of_def
      no_keys_def required_string_def get_or_def nonempty_def
      match_placeholder_def is_word_char_def Let_def)

lemma PRICE_TOOLS_value:
  "convert_workflow_to_user_tools PRICE_CONFIG =
     [(''price'',
       \<lparr>td_tool_name = ''price'', td_type = ''api'', td_description = [],
        td_properties =
          [(''coin'', \<lparr>prop_type = ''string'', prop_description = Some ''Cryptocurrency ID'',
                       prop_enum = None, prop_default = None\<rparr>)],
        td_required = None,
        td_api_url = Some ''https://x/{coin}'', td_http_method = None, td_geocoding_url = None,
        td_prompt_template = None, td_response_text = None\<rparr>),
      (''hello'',
       \<lparr>td_tool_name = ''hello'', td_type = ''static'', td_description = [],
        td_properties = [], td_required = None,
        td_api_url = None, td_http_method = None, td_geocoding_url = None,
        td_prompt_template = None, td_response_text = Some ''Hello!''\<rparr>)]"
  by (simp add: PRICE_CONFIG_def convert_workflow_to_user_tools_def
      convert_integration_def convert_parameter_def tool_key_of_def tool_type_of_def
      no_keys_def required_string_def get_or_def nonempty_def Let_def)

lemma BROKEN_TOOLS_value:
  "convert_workflow_to_user_tools BROKEN_CONFIG =
     [(''broken'',
       \<lparr>td_tool_name = ''broken'', td_type = ''sql'', td_description = [],
        td_properties = [], td_required = None,
        td_api_url = None, td_http_method = None, td_geocoding_url = None,
        td_prompt_template = None, td_response_text = None\<rparr>),
      ([],
       \<lparr>td_tool_name = [], td_type = ''static'', td_description = [],
        td_properties = [], td_required = None,
        td_api_url = None, td_http_method = None, td_geocoding_url = None,
        td_prompt_template = None, td_response_text = None\<rparr>)]"
  by (simp add: BROKEN_CONFIG_def convert_workflow_to_user_tools_def
      convert_integration_def tool_key_of_def tool_type_of_def sanitize_def py_lower_def
      no_keys_def get_or_def nonempty_def Let_def)

lemma GREET_TOOLS_value:
  "convert_workflow_to_user_tools GREET_CONFIG =
     [(''hello'',
       \<lparr>td_tool_name = ''hello'', td_type = ''static'', td_description = [],
        td_properties = [], td_required = None,
        td_api_url = None, td_http_method = None, td_geocoding_url = None,
        td_prompt_template = None, td_response_text = Some ''Hello!''\<rparr>),
      (''greet'',
       \<lparr>td_tool_name = ''greet'', td_type = ''static'', td_description = [],
        td_properties =
          [(''name'', \<lparr>prop_type = ''string'', prop_description = Some ''Name of the user'',
                       prop_enum = None, prop_default = None\<rparr>)],
        td_required = None,
        td_api_url = None, td_http_method = None, td_geocoding_url = None,
        td_prompt_template = Some ''Hello {name}!'', td_response_text = None\<rparr>)]"
  by (simp add: GREET_CONFIG_def convert_workflow_to_user_tools_def
      convert_integration_def convert_parameter_def tool_key_of_def tool_type_of_def
      no_keys_def required_string_def get_or_def nonempty_def
      match_placeholder_def is_word_char_def Let_def)

lemma response_tool_calls_model_response [simp]:
  "response_tool_calls (model_response fcs) = fcs"
  by (induction fcs) (auto simp: response_tool_calls_def model_response_def)

lemmas engine_eval =
  process_call_def dispatch_def fill_param_def extract_value_from_history_def
  call_custom_api_def handle_prompt_tool_def static_result_def add_summary_def
  initial_state_def aggregate_def call_def user_turn_def offline_world_def
  py_format_def format_field_def is_digit_def py_lower_def lower_char_def
  py_upper_def upper_char_def py_strip_def is_space_def split1_last_def
  SUMMARY_MODEL_NAME_def Let_def

section \<open>Strings and dictionaries\<close>

lemma py_lower_Nil_iff: "py_lower p = [] \<longleftrightarrow> p = []"
  by (simp add: py_lower_def)

lemma py_in_after_first: "sub \<noteq> [] \<Longrightarrow> py_in sub s \<longleftrightarrow> after_first sub s \<noteq> None"
  by (induction s) auto

lemma scan_history_nonempty: "scan_history p items = Inr (Some t) \<Longrightarrow> t \<noteq> []"
  by (induction items) (auto simp: Let_def split: if_splits sum.splits)

lemma extract_nonempty: "extract_value_from_history p h = Inr (Some t) \<Longrightarrow> t \<noteq> []"
  unfolding extract_value_from_history_def by (rule scan_history_nonempty)

lemma scan_history_spec:
  "p \<noteq> [] \<Longrightarrow>
   scan_history p items =
     Inr (case List.map_filter (spec_turn_value p) items of [] \<Rightarrow> None | t # _ \<Rightarrow> Some t)"
  by (induction items)
     (auto simp: Let_def spec_turn_value_def split1_last_def py_in_after_first map_filter_simps
           split: option.splits)

lemma extract_spec:
  "param \<noteq> [] \<Longrightarrow> extract_value_from_history param history = Inr (spec_history_value param history)"
  by (simp add: extract_value_from_history_def spec_history_value_def scan_history_spec py_lower_Nil_iff)

lemma py_join_Cons: "py_join sep (x # xs) = x @ concat (map (\<lambda>y. sep @ y) xs)"
  by (induction xs arbitrary: x) auto

lemma map_fst_dict_set:
  "map fst (dict_set k v d) = (if k \<in> fst ` set d then map fst d else map fst d @ [k])"
  by (induction d) force+

lemma fst_set_dict_set: "fst ` set (dict_set k v d) = insert k (fst ` set d)"
proof -
  have "fst ` set (dict_set k v d) = set (map fst (dict_set k v d))" by simp
  also have "\<dots> = insert k (fst ` set d)" unfolding map_fst_dict_set by auto
  finally show ?thesis .
qed

lemma set_dict_set_subset: "set (dict_set k v d) \<subseteq> insert (k, v) (set d)"
  by (induction d) (auto split: if_splits)

lemma dict_set_not_Nil: "dict_set k v d \<noteq> []"
  by (cases d) (auto split: if_splits)

lemma subseq_append_left: "subseq (xs @ ys) zs \<Longrightarrow> subseq xs zs"
proof -
  assume "subseq (xs @ ys) zs"
  moreover have "subseq xs (xs @ ys)" by (rule prefix_imp_subseq) simp
  ultimately show ?thesis by (rule subseq_order.order_trans[rotated])
qed

lemma find_append:
  "find P (xs @ ys) = (case find P xs of None \<Rightarrow> find P ys | Some x \<Rightarrow> Some x)"
  by (induction xs) auto

lemma map_of_dict_set: "map_of (dict_set k v d) = (map_of d)(k \<mapsto> v)"
  by (induction d) (auto simp: fun_eq_iff)

section \<open>The loop of \<^verbatim>\<open>execute_tool_calls\<close>, step by step\<close>

lemma execute_tool_calls_unfold:
  assumes "response_tool_calls resp = fcs" and "fcs \<noteq> []"
  shows "execute_tool_calls world tools resp history ui =
     (case run_calls world tools history ui fcs initial_state of
        Next st \<Rightarrow> (Inr (aggregate fcs st), trace st)
      | Return r effs \<Rightarrow> (Inr (Some r), effs)
      | Raise e effs \<Rightarrow> (Inl e, effs))"
  using assms
  by (auto simp: execute_tool_calls_def response_tool_calls_def Let_def split: list.splits option.splits)

lemma dispatch_Next:
  assumes "dispatch world td name fa ui st = Next st'"
  shows "\<exists>result texts.
           st' = st\<lparr>summary_items := summary_items st @ [\<lparr>si_name = name, si_type = td_type td, si_content = result\<rparr>],
                    static_texts := static_texts st @ texts,
                    trace := trace st @ dispatch_effects world td fa ui\<rparr>"
proof -
  consider "td_type td = ''api''" | "td_type td = ''prompt''" | "td_type td = ''rag''"
    | "td_type td = ''static''"
    | "td_type td \<noteq> ''api''" "td_type td \<noteq> ''prompt''" "td_type td \<noteq> ''rag''" "td_type td \<noteq> ''static''"
    by blast
  then show ?thesis
  proof cases
    case 1
    with assms obtain result effs where "call_custom_api world td fa = (Inr result, effs)"
      and "st' = add_summary name ''api'' result (st\<lparr>trace := trace st @ effs\<rparr>)"
      by (auto simp: dispatch_def split: prod.splits sum.splits)
    then show ?thesis using 1
      by (intro exI[of _ result] exI[of _ "[]"]) (simp add: add_summary_def dispatch_effects_def)
  next
    case 2
    with assms obtain result effs where "handle_prompt_tool world td fa = (Inr result, effs)"
      and "st' = add_summary name ''prompt'' (CText result) (st\<lparr>trace := trace st @ effs\<rparr>)"
      by (auto simp: dispatch_def split: prod.splits sum.splits)
    then show ?thesis using 2
      by (intro exI[of _ "CText result"] exI[of _ "[]"]) (simp add: add_summary_def dispatch_effects_def)
  next
    case 3
    with assms show ?thesis
      by (auto simp: dispatch_def Let_def split: sum.splits)
  next
    case 4
    with assms obtain t where "static_result td fa = Inr t"
      and "st' = add_summary name ''static'' (CText t) (st\<lparr>static_texts := static_texts st @ [t]\<rparr>)"
      by (auto simp: dispatch_def split: sum.splits)
    then show ?thesis using 4
      by (intro exI[of _ "CText t"] exI[of _ "[t]"]) (simp add: add_summary_def dispatch_effects_def)
  next
    case 5
    with assms have "st' = add_summary name (td_type td) (CError ''Unsupported tool type.'') st"
      by (simp add: dispatch_def)
    then show ?thesis
      using 5 by (intro exI[of _ "CError ''Unsupported tool type.''"] exI[of _ "[]"])
         (simp add: add_summary_def dispatch_effects_def)
  qed
qed


lemma process_call_unregistered:
  "map_of tools (fc_name fc) = None \<Longrightarrow>
   process_call world tools history ui fc st = Next (st\<lparr>all_static := False\<rparr>)"
  by (simp add: process_call_def)

lemma process_call_registered:
  assumes "map_of tools (fc_name fc) = Some td"
      and "fill_required (fc_args fc) history (case td_required td of None \<Rightarrow> [] | Some r \<Rightarrow> r) ([], []) = Inr (fa, ms)"
  shows "process_call world tools history ui fc st =
     (if ms \<noteq> [] then
        Next ((if td_type td \<noteq> ''static'' then st\<lparr>all_static := False\<rparr> else st)
               \<lparr>pending_params := dict_set (fc_name fc) \<lparr>pe_missing = ms, pe_args = fa\<rparr> (pending_params st)\<rparr>)
      else dispatch world td (fc_name fc) fa ui (if td_type td \<noteq> ''static'' then st\<lparr>all_static := False\<rparr> else st))"
  using assms by (simp add: process_call_def Let_def)

lemma process_call_fill_error:
  assumes "map_of tools (fc_name fc) = Some td"
      and "fill_required (fc_args fc) history (case td_required td of None \<Rightarrow> [] | Some r \<Rightarrow> r) ([], []) = Inl e"
  shows "process_call world tools history ui fc st = Raise e (trace st)"
  using assms by (simp add: process_call_def Let_def)

lemma pending_entry_of_Some:
  "pending_entry_of tools history fc = Some entry \<longleftrightarrow>
     (\<exists>td. map_of tools (fc_name fc) = Some td \<and>
        fill_required (fc_args fc) history (case td_required td of None \<Rightarrow> [] | Some r \<Rightarrow> r) ([], [])
          = Inr (pe_args entry, pe_missing entry) \<and> pe_missing entry \<noteq> [])"
  by (cases entry) (auto simp: pending_entry_of_def split: option.splits sum.splits)

lemma process_call_pending:
  assumes "pending_entry_of tools history fc = Some entry"
  shows "\<exists>st'. process_call world tools history ui fc st = Next st' \<and>
           pending_params st' = dict_set (fc_name fc) entry (pending_params st) \<and>
           summary_items st' = summary_items st \<and> static_texts st' = static_texts st \<and>
           trace st' = trace st"
proof -
  from assms obtain td where td: "map_of tools (fc_name fc) = Some td"
    and fill: "fill_required (fc_args fc) history (case td_required td of None \<Rightarrow> [] | Some r \<Rightarrow> r) ([], [])
          = Inr (pe_args entry, pe_missing entry)" and ms: "pe_missing entry \<noteq> []"
    unfolding pending_entry_of_Some by blast
  have entry: "\<lparr>pe_missing = pe_missing entry, pe_args = pe_args entry\<rparr> = entry" by simp
  show ?thesis
    unfolding process_call_registered[OF td fill] using ms by (simp add: entry)
qed

lemma process_call_executed:
  assumes "process_call world tools history ui fc st = Next st'"
      and "map_of tools (fc_name fc) = Some td"
      and "pending_entry_of tools history fc = None"
  shows "\<exists>item. si_name item = fc_name fc \<and> si_type item = td_type td \<and>
           summary_items st' = summary_items st @ [item] \<and>
           pending_params st' = pending_params st"
proof (cases "fill_required (fc_args fc) history (case td_required td of None \<Rightarrow> [] | Some r \<Rightarrow> r) ([], [])")
  case (Inl e)
  with assms show ?thesis by (simp add: process_call_fill_error)
next
  case (Inr p)
  obtain fa ms where p: "p = (fa, ms)" by (cases p)
  with assms(2,3) Inr have ms: "ms = []"
    by (auto simp: pending_entry_of_def split: if_splits)
  from assms(1) have "dispatch world td (fc_name fc) fa ui (if td_type td \<noteq> ''static'' then st\<lparr>all_static := False\<rparr> else st) = Next st'"
    unfolding process_call_registered[OF assms(2) Inr[unfolded p]] using ms by simp
  from dispatch_Next[OF this] show ?thesis by auto
qed

lemma process_call_trace:
  assumes "process_call world tools history ui fc st = Next st'"
  shows "trace st' = trace st @ call_effects world tools history ui fc"
proof (cases "map_of tools (fc_name fc)")
  case None
  with assms show ?thesis by (auto simp: process_call_unregistered call_effects_def)
next
  case (Some td)
  show ?thesis
  proof (cases "fill_required (fc_args fc) history (case td_required td of None \<Rightarrow> [] | Some r \<Rightarrow> r) ([], [])")
    case (Inl e)
    with assms Some show ?thesis by (simp add: process_call_fill_error)
  next
    case (Inr p)
    obtain fa ms where p: "p = (fa, ms)" by (cases p)
    show ?thesis
    proof (cases "ms = []")
      case True
      from assms have "dispatch world td (fc_name fc) fa ui (if td_type td \<noteq> ''static'' then st\<lparr>all_static := False\<rparr> else st) = Next st'"
        unfolding process_call_registered[OF Some Inr[unfolded p]] using True by simp
      from dispatch_Next[OF this] show ?thesis
        using Some Inr p True by (auto simp: call_effects_def)
    next
      case False
      with assms show ?thesis
        unfolding process_call_registered[OF Some Inr[unfolded p]]
        using Some Inr p by (auto simp: call_effects_def)
    qed
  qed
qed

lemma needs_input_no_effects:
  "needs_input tools history fc \<Longrightarrow> call_effects world tools history ui fc = []"
  by (auto simp: needs_input_def call_effects_def pending_entry_of_def split: option.splits sum.splits)


lemma process_call_pending_keys:
  assumes "process_call world tools history ui fc st = Next st'"
  shows "fst ` set (pending_params st') =
           fst ` set (pending_params st) \<union> (if needs_input tools history fc then {fc_name fc} else {})"
proof (cases "pending_entry_of tools history fc")
  case None
  show ?thesis
  proof (cases "map_of tools (fc_name fc)")
    case no: None
    with assms None show ?thesis by (auto simp: process_call_unregistered needs_input_def)
  next
    case (Some td)
    from process_call_executed[OF assms Some None] None show ?thesis
      by (auto simp: needs_input_def)
  qed
next
  case (Some entry)
  from process_call_pending[OF Some, of world ui st] assms Some show ?thesis
    by (auto simp: needs_input_def fst_set_dict_set)
qed

lemma process_call_pending_entries:
  assumes "process_call world tools history ui fc st = Next st'"
      and "(name, entry) \<in> set (pending_params st')"
  shows "(name, entry) \<in> set (pending_params st) \<or>
         (fc_name fc = name \<and> pending_entry_of tools history fc = Some entry)"
proof (cases "pending_entry_of tools history fc")
  case None
  show ?thesis
  proof (cases "map_of tools (fc_name fc)")
    case no: None
    with assms show ?thesis by (auto simp: process_call_unregistered)
  next
    case (Some td)
    from process_call_executed[OF assms(1) Some None] assms(2) show ?thesis by auto
  qed
next
  case (Some e)
  from process_call_pending[OF Some, of world ui st] assms(1)
  have "pending_params st' = dict_set (fc_name fc) e (pending_params st)" by auto
  with assms(2) set_dict_set_subset[of "fc_name fc" e "pending_params st"] Some
  show ?thesis by auto
qed

lemma run_calls_trace:
  "run_calls world tools history ui fcs st = Next st' \<Longrightarrow>
   trace st' = trace st @ concat (map (call_effects world tools history ui) fcs)"
proof (induction fcs arbitrary: st)
  case Nil
  then show ?case by simp
next
  case (Cons fc fcs)
  then obtain st1 where 1: "process_call world tools history ui fc st = Next st1"
    and 2: "run_calls world tools history ui fcs st1 = Next st'"
    by (auto split: step.splits)
  from Cons.IH[OF 2] process_call_trace[OF 1] show ?case by simp
qed

lemma run_calls_pending_keys:
  "run_calls world tools history ui fcs st = Next st' \<Longrightarrow>
   fst ` set (pending_params st') =
     fst ` set (pending_params st) \<union> fc_name ` {fc \<in> set fcs. needs_input tools history fc}"
proof (induction fcs arbitrary: st)
  case Nil
  then show ?case by simp
next
  case (Cons fc fcs)
  then obtain st1 where 1: "process_call world tools history ui fc st = Next st1"
    and 2: "run_calls world tools history ui fcs st1 = Next st'"
    by (auto split: step.splits)
  from Cons.IH[OF 2] process_call_pending_keys[OF 1] show ?case by auto
qed

lemma run_calls_pending_entries:
  "run_calls world tools history ui fcs st = Next st' \<Longrightarrow>
   (name, entry) \<in> set (pending_params st') \<Longrightarrow>
   (name, entry) \<in> set (pending_params st) \<or>
     (\<exists>fc \<in> set fcs. fc_name fc = name \<and> pending_entry_of tools history fc = Some entry)"
proof (induction fcs arbitrary: st)
  case Nil
  then show ?case by simp
next
  case (Cons fc fcs)
  then obtain st1 where 1: "process_call world tools history ui fc st = Next st1"
    and 2: "run_calls world tools history ui fcs st1 = Next st'"
    by (auto split: step.splits)
  from Cons.IH[OF 2 Cons.prems(2)] process_call_pending_entries[OF 1] show ?case by auto
qed




lemma run_calls_append:
  "run_calls world tools history ui (pre @ rest) st =
     (case run_calls world tools history ui pre st of
        Next st1 \<Rightarrow> run_calls world tools history ui rest st1
      | Return r effs \<Rightarrow> Return r effs
      | Raise e effs \<Rightarrow> Raise e effs)"
  by (induction pre arbitrary: st) (auto split: step.splits)

lemma process_call_rag:
  assumes "map_of tools (fc_name fc) = Some td" and "td_type td = ''rag''"
      and "fill_required (fc_args fc) history (case td_required td of None \<Rightarrow> [] | Some r \<Rightarrow> r) ([], [])
             = Inr (fa, [])"
      and "run_rag world ui = Inr r"
  shows "process_call world tools history ui fc st = Return (RagMode r) (trace st @ [RagCall ui])"
  unfolding process_call_registered[OF assms(1,3)]
  using assms(2,4) by (auto simp: dispatch_def)

section \<open>The claims about the tool engine\<close>

text \<open>
  C1, as amended. Take a batch whose loop runs to its end (no \<^verbatim>\<open>rag\<close> call returns early
  and nothing raises) and in which at least one call to a registered tool has a required
  parameter missing after resolution. Then \<^verbatim>\<open>execute_tool_calls\<close> returns the status
  \<^verbatim>\<open>pending_json\<close>; the keys of its payload are exactly the names of the tools called with a
  missing parameter, each with the missing names and the partial arguments of such a call; no
  summarization call follows; and the outside calls made are those of the calls whose
  parameters were all resolved, a call with a missing parameter making none.
\<close>

theorem pending_batch:
  assumes calls: "response_tool_calls resp = fcs"
      and completes: "run_calls world tools history ui fcs initial_state = Next st"
      and some_missing: "\<exists>fc \<in> set fcs. needs_input tools history fc"
  shows "execute_tool_calls world tools resp history ui =
           (Inr (Some (PendingJson (pending_params st))), trace st)
       \<and> fst ` set (pending_params st) = fc_name ` {fc \<in> set fcs. needs_input tools history fc}
       \<and> (\<forall>(name, entry) \<in> set (pending_params st).
             \<exists>fc \<in> set fcs. fc_name fc = name \<and> pending_entry_of tools history fc = Some entry)
       \<and> summarizer_calls (Some (PendingJson (pending_params st)) :: ('j, 'r) tool_results option) = []
       \<and> trace st = concat (map (call_effects world tools history ui) fcs)
       \<and> (\<forall>fc \<in> set fcs. needs_input tools history fc \<longrightarrow> call_effects world tools history ui fc = [])"
proof -
  from some_missing have ne: "fcs \<noteq> []" by auto
  have keys: "fst ` set (pending_params st) = fc_name ` {fc \<in> set fcs. needs_input tools history fc}"
    using run_calls_pending_keys[OF completes] by (simp add: initial_state_def)
  with some_missing have pend: "pending_params st \<noteq> []" by auto
  have exec: "execute_tool_calls world tools resp history ui =
           (Inr (Some (PendingJson (pending_params st))), trace st)"
    using execute_tool_calls_unfold[OF calls ne, of world tools history ui] completes pend
    by (simp add: aggregate_def)
  have entries: "\<forall>(name, entry) \<in> set (pending_params st).
             \<exists>fc \<in> set fcs. fc_name fc = name \<and> pending_entry_of tools history fc = Some entry"
    using run_calls_pending_entries[OF completes] by (auto simp: initial_state_def)
  have tr: "trace st = concat (map (call_effects world tools history ui) fcs)"
    using run_calls_trace[OF completes] by (simp add: initial_state_def)
  show ?thesis
    using exec keys entries tr by (simp add: summarizer_calls_def needs_input_no_effects)
qed

text \<open>
  C1 on a batch of \<^verbatim>\<open>USER_TOOLS\<close>: clothes (static, executed) and a price without its coin.
\<close>

theorem pending_batch_witness:
  "(\<exists>fc \<in> set clothes_and_price.
      needs_input USER_TOOLS [user_turn ''what should I wear and what is the price''] fc)
   \<and> execute_tool_calls offline_world USER_TOOLS (model_response clothes_and_price)
         [user_turn ''what should I wear and what is the price'']
         ''what should I wear and what is the price''
       = (Inr (Some (PendingJson
            [(''crypto_api'', \<lparr>pe_missing = [''coin''], pe_args = [(''coin'', VStr [])]\<rparr>)])), [])"
proof -
  let ?h = "[user_turn ''what should I wear and what is the price'']"
  let ?st = "\<lparr>pending_params =
                 [(''crypto_api'', \<lparr>pe_missing = [''coin''], pe_args = [(''coin'', VStr [])]\<rparr>)],
              static_texts =
                 [''Okay, you look good in any clothes, but I suggest you wear light color clothes today.''],
              summary_items =
                 [\<lparr>si_name = ''cloth_combination'', si_type = ''static'',
                   si_content = CText ''Okay, you look good in any clothes, but I suggest you wear light color clothes today.''\<rparr>],
              all_static = False, trace = []\<rparr> :: string loop_state"
  have calls: "response_tool_calls (model_response clothes_and_price) = clothes_and_price"
    by simp
  have completes:
    "run_calls offline_world USER_TOOLS ?h ''what should I wear and what is the price''
       clothes_and_price initial_state = Next ?st"
    by (simp add: clothes_and_price_def USER_TOOLS_value engine_eval)
  have missing: "\<exists>fc \<in> set clothes_and_price. needs_input USER_TOOLS ?h fc"
    by (simp add: clothes_and_price_def USER_TOOLS_value needs_input_def pending_entry_of_def
        engine_eval)
  from pending_batch[OF calls completes missing, THEN conjunct1] missing show ?thesis
    by simp
qed

text \<open>
  C1 as stated fails: in this batch the call of \<^verbatim>\<open>motivation_tool\<close> lacks its topic and the
  status is \<^verbatim>\<open>pending_json\<close>, yet the call of \<^verbatim>\<open>quote_api\<close> before it has been executed and
  its HTTP request made.
\<close>

theorem pending_batch_http_counterexample:
  "needs_input USER_TOOLS [user_turn ''give me a quote and some motivation'']
     (call ''motivation_tool'' [])
   \<and> execute_tool_calls offline_world USER_TOOLS (model_response quote_and_motivation)
         [user_turn ''give me a quote and some motivation'']
         ''give me a quote and some motivation''
       = (Inr (Some (PendingJson
            [(''motivation_tool'', \<lparr>pe_missing = [''topic''], pe_args = [(''topic'', VStr [])]\<rparr>)])),
          [HttpCall \<lparr>http_method = ''GET'', http_url = ''https://api.quotable.io/random'',
                     http_json = None, http_timeout = 10\<rparr>])"
  by (simp add: quote_and_motivation_def USER_TOOLS_value needs_input_def pending_entry_of_def
      execute_tool_calls_def model_response_def engine_eval)




text \<open>
  A template of a static tool is formatted with the required parameters only and outside
  any \<^verbatim>\<open>try\<close>: when it names another parameter no text is produced and the exception
  leaves \<^verbatim>\<open>execute_tool_calls\<close>.
\<close>

lemma static_template_failure_raises:
  "execute_tool_calls offline_world (convert_workflow_to_user_tools GREET_CONFIG)
     (model_response [call ''hello'' [], call ''greet'' [(''name'', VStr ''Ann'')]]) []
     ''say hello to Ann''
   = (Inl (KeyError ''name''), [])"
  by (simp add: GREET_TOOLS_value execute_tool_calls_def model_response_def engine_eval)

text \<open>
  C3 is not what the code does when the template cannot be formatted. The descriptor of
  \<^verbatim>\<open>price\<close> declares \<^verbatim>\<open>coin\<close> without requiring it, so \<^verbatim>\<open>coin\<close> is not among the resolved
  arguments, although the model supplies it. \<^verbatim>\<open>call_custom_api\<close> formats the URL before its
  \<^verbatim>\<open>try\<close> block: the \<^verbatim>\<open>KeyError\<close> leaves \<^verbatim>\<open>execute_tool_calls\<close>, no result is returned for the
  batch and the call of \<^verbatim>\<open>hello\<close> after it is not processed.
\<close>

theorem format_failure_aborts_batch:
  "execute_tool_calls offline_world (convert_workflow_to_user_tools PRICE_CONFIG)
     (model_response price_and_hello) [user_turn ''bitcoin price and say hello'']
     ''bitcoin price and say hello''
   = (Inl (KeyError ''coin''), [])"
  by (simp add: price_and_hello_def PRICE_TOOLS_value execute_tool_calls_def model_response_def
      engine_eval)

text \<open>
  What C3 says of the other failures holds. Once the URL is formatted the request is made
  with the configured method (\<^verbatim>\<open>GET\<close> when none is configured) and a timeout of 10 seconds,
  and \<^verbatim>\<open>call_custom_api\<close> returns a content whatever the request does: a failure of the
  request or of the parsing becomes the content \<^verbatim>\<open>{"error": msg}\<close>, and the loop goes on.
\<close>

lemma api_call_after_format:
  assumes "td_api_url tool = Some template" and "py_format template args = Inr url"
  shows "\<exists>req. snd (call_custom_api world tool args) = [HttpCall req] \<and>
           http_url req = url \<and> http_timeout req = 10 \<and>
           http_method req = py_upper (case td_http_method tool of None \<Rightarrow> ''GET'' | Some m \<Rightarrow> m) \<and>
           fst (call_custom_api world tool args) =
             Inr (case requests_request world req of Inl msg \<Rightarrow> CError msg | Inr j \<Rightarrow> CJson j)"
  using assms by (auto simp: call_custom_api_def Let_def split: sum.splits)

lemma url_template_example:
  "py_format ''https://x/{coin}'' [(''coin'', VStr ''bitcoin'')] = Inr ''https://x/bitcoin''"
  by (simp add: py_format_def format_field_def is_digit_def)

lemma transport_failure_is_recovered:
  "execute_tool_calls offline_world USER_TOOLS
     (model_response [call ''quote_api'' [], call ''cloth_combination'' []]) [] ''a quote and clothes''
   = (Inr (Some (Mixed
        [\<lparr>si_name = ''quote_api'', si_type = ''api'', si_content = CError ''connection refused''\<rparr>,
         \<lparr>si_name = ''cloth_combination'', si_type = ''static'',
          si_content = CText ''Okay, you look good in any clothes, but I suggest you wear light color clothes today.''\<rparr>])),
      [HttpCall \<lparr>http_method = ''GET'', http_url = ''https://api.quotable.io/random'',
                 http_json = None, http_timeout = 10\<rparr>])"
  by (simp add: USER_TOOLS_value execute_tool_calls_def model_response_def engine_eval)

text \<open>
  C4, as amended. A required parameter with a non-empty name is resolved in this order:
  (1) a supplied argument with a true value is used; (2) otherwise the user turns of the
  history are scanned from the most recent one, the text parts of a turn joined by single
  spaces and lower-cased, and the first turn in which the lower-cased name occurs with a
  non-empty trimmed remainder after its first occurrence gives that remainder as the value
  (a turn in which nothing but white space follows the name is passed over); (3) otherwise
  the parameter is marked missing and its argument is the empty string.
\<close>

theorem resolution_order:
  assumes "param \<noteq> []"
  shows "fill_param args history param (final_args, missing) =
     Inr (case spec_resolve_param args history param of
            Supplied v \<Rightarrow> (dict_set param v final_args, missing)
          | Inferred t \<Rightarrow> (dict_set param (VStr t) final_args, missing)
          | Missing \<Rightarrow> (dict_set param (VStr []) final_args, missing @ [param]))"
proof -
  have nonempty: "t \<noteq> []" if "spec_history_value param history = Some t" for t
    using that extract_spec[OF assms, of history] extract_nonempty[of param history t] by simp
  show ?thesis
    by (auto simp: fill_param_def spec_resolve_param_def extract_spec[OF assms]
             split: option.splits dest: nonempty)
qed

text \<open>C4 on the example of the specification: ``please'' is followed by ``today''.\<close>

theorem resolution_order_witness:
  "''please'' \<noteq> [] \<and>
   fill_param Map.empty [user_turn ''Weather in Rome please today''] ''please'' ([], [])
     = Inr ([(''please'', VStr ''today'')], [])"
proof -
  have name: "''please'' \<noteq> []" by simp
  from resolution_order[OF name, of Map.empty "[user_turn ''Weather in Rome please today'']" "[]" "[]"]
  show ?thesis
    by (simp add: spec_resolve_param_def spec_history_value_def spec_turn_value_def
        map_filter_simps engine_eval)
qed

text \<open>
  C4 as stated fails. The user turn ``what is my location'' contains the name and nothing
  follows it. When it is the only turn, the parameter is marked missing although its name
  occurs in the history. When an older turn names a location, the value is not the (empty)
  remainder of the most recent turn with the name: the scan goes on and takes the remainder
  found in the older turn.
\<close>

theorem resolution_order_counterexample:
  "py_in (py_lower ''location'') (py_lower ''what is my location'')
   \<and> split1_last (py_lower ''location'') (py_lower ''what is my location'') = Inr []
   \<and> fill_param Map.empty [user_turn ''what is my location''] ''location'' ([], [])
       = Inr ([(''location'', VStr [])], [''location''])
   \<and> fill_param Map.empty [user_turn ''Location: Paris'', user_turn ''what is my location'']
        ''location'' ([], [])
       = Inr ([(''location'', VStr '': paris'')], [])"
  by (simp add: engine_eval)

text \<open>
  C5. When the loop reaches a call of a registered \<^verbatim>\<open>rag\<close> tool whose required parameters
  are all resolved, it passes the raw user input to \<^verbatim>\<open>run_rag\<close> and returns at once with the
  status \<^verbatim>\<open>rag_mode\<close> and the retrieval result: the outcome is that of the batch cut after
  the \<^verbatim>\<open>rag\<close> call, so no later call is processed, and the trace holds the outside calls of
  the earlier calls followed by the one retrieval call.
\<close>

theorem rag_short_circuit:
  assumes calls: "response_tool_calls resp = pre @ fc # post"
      and reached: "run_calls world tools history ui pre initial_state = Next st"
      and rag: "map_of tools (fc_name fc) = Some td" "td_type td = ''rag''"
      and resolved:
        "fill_required (fc_args fc) history (case td_required td of None \<Rightarrow> [] | Some r \<Rightarrow> r) ([], [])
           = Inr (final_args, [])"
      and answer: "run_rag world ui = Inr r"
  shows "execute_tool_calls world tools resp history ui =
           (Inr (Some (RagMode r)), trace st @ [RagCall ui])
       \<and> run_calls world tools history ui (pre @ fc # post) initial_state =
           run_calls world tools history ui (pre @ [fc]) initial_state
       \<and> trace st = concat (map (call_effects world tools history ui) pre)"
proof -
  have step: "process_call world tools history ui fc st = Return (RagMode r) (trace st @ [RagCall ui])"
    by (rule process_call_rag[OF rag resolved answer])
  have run: "run_calls world tools history ui (pre @ fc # post') initial_state =
          Return (RagMode r) (trace st @ [RagCall ui])" for post'
    by (simp add: run_calls_append reached step)
  have ne: "pre @ fc # post \<noteq> []" by simp
  have tr: "trace st = concat (map (call_effects world tools history ui) pre)"
    using run_calls_trace[OF reached] by (simp add: initial_state_def)
  show ?thesis
    using execute_tool_calls_unfold[OF calls ne, of world tools history ui] run[of post] run[of "[]"] tr
    by simp
qed

text \<open>C5 on a quote, a retrieval and clothes: the clothes are never looked at.\<close>

theorem rag_short_circuit_witness:
  "execute_tool_calls offline_world USER_TOOLS
     (model_response
        ([call ''quote_api'' []] @ call ''rag_tool'' [(''user_query'', VStr ''leave policy'')]
           # [call ''cloth_combination'' []]))
     [] ''what is the leave policy''
   = (Inr (Some (RagMode ''answer to: what is the leave policy'')),
      [HttpCall \<lparr>http_method = ''GET'', http_url = ''https://api.quotable.io/random'',
                 http_json = None, http_timeout = 10\<rparr>,
       RagCall ''what is the leave policy''])"
proof -
  let ?pre = "[call ''quote_api'' []]"
  let ?fc = "call ''rag_tool'' [(''user_query'', VStr ''leave policy'')]"
  let ?post = "[call ''cloth_combination'' []]"
  let ?td = "\<lparr>td_tool_name = ''rag_tool'', td_type = ''rag'',
        td_description = ''Retrieves information from internal knowledge base using RAG.'',
        td_properties =
          [(''user_query'', \<lparr>prop_type = ''string'', prop_description = Some ''User's query'',
                             prop_enum = None, prop_default = None\<rparr>)],
        td_required = Some [''user_query''],
        td_api_url = None, td_http_method = None, td_geocoding_url = None,
        td_prompt_template = None, td_response_text = None\<rparr>"
  let ?st = "\<lparr>pending_params = [], static_texts = [],
              summary_items =
                [\<lparr>si_name = ''quote_api'', si_type = ''api'', si_content = CError ''connection refused''\<rparr>],
              all_static = False,
              trace = [HttpCall \<lparr>http_method = ''GET'', http_url = ''https://api.quotable.io/random'',
                                 http_json = None, http_timeout = 10\<rparr>]\<rparr> :: string loop_state"
  have calls: "response_tool_calls (model_response (?pre @ ?fc # ?post)) = ?pre @ ?fc # ?post"
    by simp
  have reached: "run_calls offline_world USER_TOOLS [] ''what is the leave policy'' ?pre initial_state
      = Next ?st"
    by (simp add: USER_TOOLS_value engine_eval)
  have rag: "map_of USER_TOOLS (fc_name ?fc) = Some ?td" "td_type ?td = ''rag''"
    by (simp_all add: USER_TOOLS_value call_def)
  have resolved: "fill_required (fc_args ?fc) [] (case td_required ?td of None \<Rightarrow> [] | Some r \<Rightarrow> r) ([], [])
      = Inr ([(''user_query'', VStr ''leave policy'')], [])"
    by (simp add: engine_eval)
  have answer: "run_rag offline_world ''what is the leave policy''
      = Inr ''answer to: what is the leave policy''"
    by (simp add: offline_world_def)
  from rag_short_circuit[OF calls reached rag resolved answer, THEN conjunct1] show ?thesis
    by simp
qed

text \<open>
  C6, as amended. Whenever the iteration for a call completes (it neither returns through
  the \<^verbatim>\<open>rag\<close> branch nor raises): a call that names a registered tool gives either exactly one
  new entry at the end of \<^verbatim>\<open>summary_items\<close>, with its name and type, and leaves
  \<^verbatim>\<open>pending_params\<close> as it was, or it sets the entry of \<^verbatim>\<open>pending_params\<close> under its tool
  name to its missing names and partial arguments and leaves \<^verbatim>\<open>summary_items\<close> as it was,
  never both; a call that names no registered tool is skipped and gives neither.
\<close>

theorem call_result_or_pending:
  assumes "process_call world tools history ui fc st = Next st'"
  shows "(case map_of tools (fc_name fc) of
            None \<Rightarrow>
              summary_items st' = summary_items st \<and> pending_params st' = pending_params st
          | Some td \<Rightarrow>
              ((\<exists>item. si_name item = fc_name fc \<and> si_type item = td_type td \<and>
                  summary_items st' = summary_items st @ [item]) \<and>
               pending_params st' = pending_params st \<and>
               pending_entry_of tools history fc = None)
            \<or> ((\<exists>entry. pending_entry_of tools history fc = Some entry \<and>
                  pending_params st' = dict_set (fc_name fc) entry (pending_params st)) \<and>
               summary_items st' = summary_items st))"
proof (cases "map_of tools (fc_name fc)")
  case None
  with assms show ?thesis by (auto simp: process_call_unregistered)
next
  case (Some td)
  show ?thesis
  proof (cases "pending_entry_of tools history fc")
    case None
    from process_call_executed[OF assms Some None] Some None show ?thesis by auto
  next
    case entry: (Some entry)
    from process_call_pending[OF entry, of world ui st] assms Some entry show ?thesis by auto
  qed
qed

text \<open>C6 on a call of a static tool: one result, no pending entry.\<close>

theorem call_result_or_pending_witness:
  "process_call offline_world USER_TOOLS [] ''what should I wear'' (call ''cloth_combination'' [])
     initial_state
     = Next \<lparr>pending_params = [], static_texts =
                [''Okay, you look good in any clothes, but I suggest you wear light color clothes today.''],
              summary_items =
                [\<lparr>si_name = ''cloth_combination'', si_type = ''static'',
                  si_content = CText ''Okay, you look good in any clothes, but I suggest you wear light color clothes today.''\<rparr>],
              all_static = True, trace = []\<rparr>
   \<and> pending_entry_of USER_TOOLS [] (call ''cloth_combination'' []) = None"
proof -
  let ?st' = "\<lparr>pending_params = [], static_texts =
                [''Okay, you look good in any clothes, but I suggest you wear light color clothes today.''],
              summary_items =
                [\<lparr>si_name = ''cloth_combination'', si_type = ''static'',
                  si_content = CText ''Okay, you look good in any clothes, but I suggest you wear light color clothes today.''\<rparr>],
              all_static = True, trace = []\<rparr> :: string loop_state"
  have completes: "process_call offline_world USER_TOOLS [] ''what should I wear''
      (call ''cloth_combination'' []) initial_state = Next ?st'"
    by (simp add: USER_TOOLS_value engine_eval)
  have registered: "map_of USER_TOOLS (fc_name (call ''cloth_combination'' [])) \<noteq> None"
    by (simp add: USER_TOOLS_value call_def)
  from call_result_or_pending[OF completes] registered completes show ?thesis
    by (auto simp: initial_state_def dict_set_not_Nil)
qed

text \<open>
  C6 as stated fails: a call that names no registered tool is skipped; it gets neither a
  result nor a pending entry, and a batch made of it alone returns \<^verbatim>\<open>None\<close>.
\<close>

theorem unregistered_call_counterexample:
  "map_of USER_TOOLS ''get_stock_price'' = None
   \<and> process_call offline_world USER_TOOLS [] ''price of ACME''
        (call ''get_stock_price'' [(''symbol'', VStr ''ACME'')]) initial_state
       = Next \<lparr>pending_params = [], static_texts = [], summary_items = [],
                all_static = False, trace = []\<rparr>
   \<and> execute_tool_calls offline_world USER_TOOLS
        (model_response [call ''get_stock_price'' [(''symbol'', VStr ''ACME'')]]) [] ''price of ACME''
       = (Inr None, [])"
  by (simp add: USER_TOOLS_value execute_tool_calls_def model_response_def engine_eval)

text \<open>
  C10. A supplied argument whose value is false in Python (the empty string, the integer 0,
  \<^verbatim>\<open>False\<close> or \<^verbatim>\<open>None\<close>) is not used: the value is looked for in the history as if nothing
  had been supplied, and if the history gives none the parameter is reported missing, with
  the empty string as its argument.
\<close>

theorem falsy_argument_treated_as_absent:
  assumes "args param = Some v"
      and "v = VStr [] \<or> v = VInt 0 \<or> v = VBool False \<or> v = VNone"
  shows "fill_param args history param (final_args, missing) =
     (case extract_value_from_history param history of
        Inl e \<Rightarrow> Inl e
      | Inr None \<Rightarrow> Inr (dict_set param (VStr []) final_args, missing @ [param])
      | Inr (Some t) \<Rightarrow> Inr (dict_set param (VStr t) final_args, missing))"
  using assms
  by (auto simp: fill_param_def split: sum.splits option.splits dest: extract_nonempty)

text \<open>
  C10 on a meeting of 0 minutes: the duration is reported missing, and the batch that
  supplies it ends as \<^verbatim>\<open>pending_json\<close>.
\<close>

theorem falsy_argument_witness:
  "fill_param [''duration_minutes'' \<mapsto> VInt 0] [user_turn ''book a slot with Ann'']
     ''duration_minutes'' ([], [])
     = Inr ([(''duration_minutes'', VStr [])], [''duration_minutes''])
   \<and> execute_tool_calls offline_world USER_TOOLS (model_response meeting_of_no_length)
        [user_turn ''book a slot with Ann''] ''book a slot with Ann''
       = (Inr (Some (PendingJson
            [(''schedule_meeting'',
              \<lparr>pe_missing = [''duration_minutes''],
               pe_args = [(''attendee_email'', VStr ''ann@example.org''), (''topic'', VStr ''plans''),
                          (''duration_minutes'', VStr [])]\<rparr>)])), [])"
proof -
  have supplied: "[''duration_minutes'' \<mapsto> VInt 0] ''duration_minutes'' = Some (VInt 0)" by simp
  have falsy: "VInt 0 = VStr [] \<or> VInt 0 = VInt 0 \<or> VInt 0 = VBool False \<or> VInt 0 = VNone" by simp
  have batch: "execute_tool_calls offline_world USER_TOOLS (model_response meeting_of_no_length)
        [user_turn ''book a slot with Ann''] ''book a slot with Ann''
       = (Inr (Some (PendingJson
            [(''schedule_meeting'',
              \<lparr>pe_missing = [''duration_minutes''],
               pe_args = [(''attendee_email'', VStr ''ann@example.org''), (''topic'', VStr ''plans''),
                          (''duration_minutes'', VStr [])]\<rparr>)])), [])"
    by (simp add: meeting_of_no_length_def USER_TOOLS_value execute_tool_calls_def
        model_response_def engine_eval)
  from falsy_argument_treated_as_absent
         [of "[''duration_minutes'' \<mapsto> VInt 0]" "''duration_minutes''" "VInt 0"
             "[user_turn ''book a slot with Ann'']" "[]" "[]", OF supplied falsy]
  have "fill_param [''duration_minutes'' \<mapsto> VInt 0] [user_turn ''book a slot with Ann'']
     ''duration_minutes'' ([], [])
     = Inr ([(''duration_minutes'', VStr [])], [''duration_minutes''])"
    by (simp add: engine_eval)
  with batch show ?thesis by simp
qed

section \<open>The claim about the registry\<close>

lemma map_of_convert_integrations:
  "map_of (convert_integrations ints tools) k =
     (case find (\<lambda>i. tool_key_of i = k) (rev ints) of
        Some i \<Rightarrow> Some (convert_integration i)
      | None \<Rightarrow> map_of tools k)"
proof (induction ints arbitrary: tools)
  case Nil
  then show ?case by simp
next
  case (Cons i ints)
  show ?case
    by (simp add: Cons.IH map_of_dict_set find_append split: option.splits)
qed

lemma distinct_dict_set:
  "distinct (map fst d) \<Longrightarrow> distinct (map fst (dict_set k v d))"
  by (simp add: map_fst_dict_set)

lemma keys_convert_integrations:
  "fst ` set (convert_integrations ints tools) = fst ` set tools \<union> tool_key_of ` set ints"
  by (induction ints arbitrary: tools) (auto simp: fst_set_dict_set)

lemma distinct_convert_integrations:
  "distinct (map fst tools) \<Longrightarrow> distinct (map fst (convert_integrations ints tools))"
  by (induction ints arbitrary: tools) (auto simp: distinct_dict_set)

lemma convert_integration_name_type:
  "td_tool_name (convert_integration i) = tool_key_of i \<and>
   td_type (convert_integration i) = tool_type_of i"
  by (auto simp: convert_integration_def Let_def split: prod.splits option.splits)

text \<open>
  C9, as amended. \<^verbatim>\<open>convert_workflow_to_user_tools\<close> validates nothing. For every list of
  descriptors (each a dictionary whose keys, where present, hold values of the expected
  types) it returns a registry in which every descriptor, well-formed or not, has been
  converted: under each key (the \<^verbatim>\<open>tool_id\<close>, or the lower-cased \<^verbatim>\<open>tool_name\<close> with
  underscores when the id is absent or empty) stands the entry built from the last descriptor
  with that key, its type given or inferred and the missing keys defaulted; the keys of the
  registry are those of the descriptors, each once. No descriptor is rejected when the
  registry is loaded.
\<close>

theorem conversion_rejects_nothing:
  "map_of (convert_workflow_to_user_tools workflow_config) k =
     map_option convert_integration
       (find (\<lambda>i. tool_key_of i = k) (rev (get_or [] (wf_integrations workflow_config))))
   \<and> fst ` set (convert_workflow_to_user_tools workflow_config) =
       tool_key_of ` set (get_or [] (wf_integrations workflow_config))
   \<and> distinct (map fst (convert_workflow_to_user_tools workflow_config))"
proof -
  let ?descriptors = "get_or [] (wf_integrations workflow_config)"
  have entries: "map_of (convert_workflow_to_user_tools workflow_config) k =
      map_option convert_integration (find (\<lambda>i. tool_key_of i = k) (rev ?descriptors))"
    by (simp add: convert_workflow_to_user_tools_def map_of_convert_integrations
             split: option.splits)
  have keys: "fst ` set (convert_workflow_to_user_tools workflow_config) =
      tool_key_of ` set ?descriptors"
    by (simp add: convert_workflow_to_user_tools_def keys_convert_integrations)
  have once: "distinct (map fst (convert_workflow_to_user_tools workflow_config))"
    by (simp add: convert_workflow_to_user_tools_def distinct_convert_integrations)
  from entries keys once show ?thesis by blast
qed

text \<open>C9, as amended, on the descriptor without any key: it is registered under the empty name.\<close>

theorem conversion_witness:
  "map_of (convert_workflow_to_user_tools BROKEN_CONFIG) [] =
     Some \<lparr>td_tool_name = [], td_type = ''static'', td_description = [],
        td_properties = [], td_required = None,
        td_api_url = None, td_http_method = None, td_geocoding_url = None,
        td_prompt_template = None, td_response_text = None\<rparr>"
  using conversion_rejects_nothing[of BROKEN_CONFIG "[]", THEN conjunct1]
  by (simp add: BROKEN_CONFIG_def convert_integration_def tool_key_of_def tool_type_of_def
      sanitize_def py_lower_def no_keys_def get_or_def nonempty_def Let_def)

text \<open>
  C9 as stated fails: a descriptor of the unknown type \<^verbatim>\<open>sql\<close>, without description,
  parameters or payload, is accepted when the registry is built; what is wrong with it
  shows only when it is called, as the content of its result.
\<close>

theorem malformed_descriptor_counterexample:
  "map_of (convert_workflow_to_user_tools BROKEN_CONFIG) ''broken''
     = Some \<lparr>td_tool_name = ''broken'', td_type = ''sql'', td_description = [],
              td_properties = [], td_required = None,
              td_api_url = None, td_http_method = None, td_geocoding_url = None,
              td_prompt_template = None, td_response_text = None\<rparr>
   \<and> execute_tool_calls offline_world (convert_workflow_to_user_tools BROKEN_CONFIG)
        (model_response [call ''broken'' []]) [] ''run the query''
       = (Inr (Some (Mixed
            [\<lparr>si_name = ''broken'', si_type = ''sql'',
              si_content = CError ''Unsupported tool type.''\<rparr>])), [])"
  by (simp add: BROKEN_TOOLS_value execute_tool_calls_def model_response_def engine_eval)

section \<open>The claims about the audio loop\<close>

lemma drain_queue_empty: "drain_queue q = []"
  by (induction q) auto

lemma run_schedule_append:
  "run_schedule (es @ fs) s =
     (case run_schedule es s of None \<Rightarrow> None | Some s1 \<Rightarrow> run_schedule fs s1)"
  by (induction es arbitrary: s) (auto split: option.splits)

lemma loop_step_played:
  assumes "loop_step e s = Some s1"
  shows "\<exists>p. played s1 = played s @ p \<and>
           subseq (p @ audio_in_queue s1) (audio_in_queue s @ received_audio [e])"
proof (cases e)
  case PlayDequeue
  with assms show ?thesis
    by (auto split: if_splits list.splits)
next
  case TurnComplete
  with assms show ?thesis by (auto simp: drain_queue_empty)
qed (use assms in \<open>auto split: if_splits option.splits list.splits\<close>)

lemma received_audio_Cons: "received_audio (e # es) = received_audio [e] @ received_audio es"
  by (cases e) auto

lemma run_schedule_played:
  "run_schedule es s = Some s' \<Longrightarrow>
   \<exists>ps. played s' = played s @ ps \<and>
         subseq (ps @ audio_in_queue s') (audio_in_queue s @ received_audio es)"
proof (induction es arbitrary: s)
  case Nil
  then show ?case by simp
next
  case (Cons e es)
  then obtain s1 where 1: "loop_step e s = Some s1" and 2: "run_schedule es s1 = Some s'"
    by (auto split: option.splits)
  from loop_step_played[OF 1] obtain p where p: "played s1 = played s @ p"
    "subseq (p @ audio_in_queue s1) (audio_in_queue s @ received_audio [e])" by blast
  from Cons.IH[OF 2] obtain ps where ps: "played s' = played s1 @ ps"
    "subseq (ps @ audio_in_queue s') (audio_in_queue s1 @ received_audio es)" by blast
  have "subseq (p @ ps @ audio_in_queue s') (p @ audio_in_queue s1 @ received_audio es)"
    using ps(2) by (simp add: list_emb_append_mono)
  also have "subseq (p @ audio_in_queue s1 @ received_audio es)
                    ((audio_in_queue s @ received_audio [e]) @ received_audio es)"
    using p(2) list_emb_append_mono[OF p(2) subseq_order.order_refl[of "received_audio es"]]
    by simp
  finally have "subseq ((p @ ps) @ audio_in_queue s') (audio_in_queue s @ received_audio (e # es))"
    by (simp add: received_audio_Cons[of e es])
  with p(1) ps(1) show ?case by (intro exI[of _ "p @ ps"]) simp
qed

text \<open>
  C7. In every run of the audio tasks, when the receive task sees the end of a turn it
  empties the inbound queue, and every chunk handed to the output device after that moment
  was received after it (and is played in order of arrival): nothing that was in the queue
  at the end of the turn is played.
\<close>

theorem turn_complete_discards_buffered_audio:
  assumes "run_schedule (before @ TurnComplete # after) initial_loop = Some s3"
  shows "\<exists>s1 s2. run_schedule before initial_loop = Some s1 \<and>
           loop_step TurnComplete s1 = Some s2 \<and>
           audio_in_queue s2 = [] \<and>
           (\<exists>ps. played s3 = played s1 @ ps \<and> subseq ps (received_audio after))"
proof -
  from assms obtain s1 where 1: "run_schedule before initial_loop = Some s1"
    and rest: "run_schedule (TurnComplete # after) s1 = Some s3"
    by (auto simp: run_schedule_append split: option.splits)
  define s2 where "s2 = s1\<lparr>audio_in_queue := drain_queue (audio_in_queue s1)\<rparr>"
  have 2: "loop_step TurnComplete s1 = Some s2" by (simp add: s2_def)
  with rest have 3: "run_schedule after s2 = Some s3" by simp
  have empty: "audio_in_queue s2 = []" by (simp add: s2_def drain_queue_empty)
  from run_schedule_played[OF 3] empty obtain ps where
    "played s3 = played s2 @ ps" "subseq (ps @ audio_in_queue s3) (received_audio after)"
    by auto
  then have "played s3 = played s1 @ ps" "subseq ps (received_audio after)"
    by (auto simp: s2_def dest: subseq_append_left)
  with 1 2 empty show ?thesis by blast
qed

text \<open>C7 on a run: chunk 2 is in the queue when the turn ends and is never played.\<close>

theorem turn_complete_witness:
  "run_schedule
     ([ReceiveData [1], ReceiveData [2], PlayDequeue] @ TurnComplete #
      [ReceiveData [3], PlayWritten, PlayDequeue]) initial_loop
     = Some \<lparr>audio_in_queue = [], out_queue = [], ai_speaking = True, put_waiting = None,
              picture_waiting = None, sending = None, writing = Some [3], played = [[1], [3]], sent = []\<rparr>
   \<and> (\<exists>ps. [[1], [3]] = [[1]] @ ps \<and> subseq ps [[3 :: nat]])"
proof -
  let ?before = "[ReceiveData [1], ReceiveData [2], PlayDequeue]"
  let ?after = "[ReceiveData [3], PlayWritten, PlayDequeue]"
  let ?s3 = "\<lparr>audio_in_queue = [], out_queue = [], ai_speaking = True, put_waiting = None,
              picture_waiting = None, sending = None, writing = Some [3], played = [[1], [3]], sent = []\<rparr>"
  have run: "run_schedule (?before @ TurnComplete # ?after) initial_loop = Some ?s3"
    by (simp add: initial_loop_def)
  have before: "run_schedule ?before initial_loop =
      Some \<lparr>audio_in_queue = [[2]], out_queue = [], ai_speaking = True, put_waiting = None,
             picture_waiting = None, sending = None, writing = Some [1], played = [[1]], sent = []\<rparr>"
    by (simp add: initial_loop_def)
  from turn_complete_discards_buffered_audio[OF run] before
  have "\<exists>ps. played ?s3 = [[1]] @ ps \<and> subseq ps (received_audio ?after)"
    by auto
  with run show ?thesis by simp
qed

lemma is_audio_frames [simp]: "is_audio (pcm_frame d)" "\<not> is_audio (jpeg_frame b)"
  by (simp_all add: is_audio_def pcm_frame_def jpeg_frame_def)

lemma captured_step:
  "loop_step e s = Some s1 \<Longrightarrow>
   captured_while_silent (ai_speaking s) (e # es) =
     captured_while_silent (ai_speaking s) [e] @ captured_while_silent (ai_speaking s1) es"
  by (cases e) (auto split: if_splits option.splits list.splits)

lemma pictures_step: "pictures_taken (e # es) = pictures_taken [e] @ pictures_taken es"
  by (cases e) auto

lemma bound_step:
  "loop_step e s = Some s1 \<Longrightarrow> length (out_queue s) \<le> OUT_QUEUE_MAXSIZE \<Longrightarrow>
   length (out_queue s1) \<le> OUT_QUEUE_MAXSIZE"
  by (cases e) (auto split: if_splits option.splits list.splits)

lemma sorted_step:
  "loop_step e s = Some s1 \<Longrightarrow> waiting_sorted s \<Longrightarrow> waiting_sorted s1"
  by (cases e) (auto simp: waiting_sorted_def holding_def split: if_splits option.splits list.splits)


lemma audio_step:
  assumes "loop_step e s = Some s1" and "waiting_sorted s"
  shows "filter is_audio (handed_on s1) @ holding (put_waiting s1) =
           (filter is_audio (handed_on s) @ holding (put_waiting s))
             @ map pcm_frame (captured_while_silent (ai_speaking s) [e])"
proof (cases e)
  case (MicRead d)
  with assms show ?thesis
    by (auto simp: handed_on_def holding_def split: if_splits)
next
  case PutResume
  with assms show ?thesis
    by (auto simp: handed_on_def holding_def waiting_sorted_def split: if_splits option.splits)
next
  case (PicturePut b)
  with assms show ?thesis
    by (auto simp: handed_on_def holding_def split: if_splits)
next
  case PictureResume
  with assms show ?thesis
    by (auto simp: handed_on_def holding_def waiting_sorted_def split: if_splits option.splits)
next
  case SendGet
  with assms show ?thesis
    by (auto simp: handed_on_def holding_def split: if_splits list.splits)
next
  case SendDone
  with assms show ?thesis
    by (auto simp: handed_on_def holding_def split: option.splits)
next
  case (ReceiveData d)
  with assms show ?thesis
    by (auto simp: handed_on_def split: if_splits)
next
  case TurnComplete
  with assms show ?thesis
    by (auto simp: handed_on_def)
next
  case PlayDequeue
  with assms show ?thesis
    by (auto simp: handed_on_def split: if_splits list.splits)
next
  case PlayWritten
  with assms show ?thesis
    by (auto simp: handed_on_def split: option.splits)
qed

lemma picture_step:
  assumes "loop_step e s = Some s1" and "waiting_sorted s"
  shows "filter (\<lambda>m. \<not> is_audio m) (handed_on s1) @ holding (picture_waiting s1) =
           (filter (\<lambda>m. \<not> is_audio m) (handed_on s) @ holding (picture_waiting s))
             @ map jpeg_frame (pictures_taken [e])"
proof (cases e)
  case (MicRead d)
  with assms show ?thesis
    by (auto simp: handed_on_def holding_def split: if_splits)
next
  case PutResume
  with assms show ?thesis
    by (auto simp: handed_on_def holding_def waiting_sorted_def split: if_splits option.splits)
next
  case (PicturePut b)
  with assms show ?thesis
    by (auto simp: handed_on_def holding_def split: if_splits)
next
  case PictureResume
  with assms show ?thesis
    by (auto simp: handed_on_def holding_def waiting_sorted_def split: if_splits option.splits)
next
  case SendGet
  with assms show ?thesis
    by (auto simp: handed_on_def holding_def split: if_splits list.splits)
next
  case SendDone
  with assms show ?thesis
    by (auto simp: handed_on_def holding_def split: option.splits)
next
  case (ReceiveData d)
  with assms show ?thesis
    by (auto simp: handed_on_def split: if_splits)
next
  case TurnComplete
  with assms show ?thesis
    by (auto simp: handed_on_def)
next
  case PlayDequeue
  with assms show ?thesis
    by (auto simp: handed_on_def split: if_splits list.splits)
next
  case PlayWritten
  with assms show ?thesis
    by (auto simp: handed_on_def split: option.splits)
qed


lemma run_schedule_capture:
  "run_schedule es s = Some s' \<Longrightarrow> waiting_sorted s \<Longrightarrow>
   length (out_queue s) \<le> OUT_QUEUE_MAXSIZE \<Longrightarrow>
   filter is_audio (handed_on s') @ holding (put_waiting s') =
     (filter is_audio (handed_on s) @ holding (put_waiting s))
       @ map pcm_frame (captured_while_silent (ai_speaking s) es)
   \<and> filter (\<lambda>m. \<not> is_audio m) (handed_on s') @ holding (picture_waiting s') =
     (filter (\<lambda>m. \<not> is_audio m) (handed_on s) @ holding (picture_waiting s))
       @ map jpeg_frame (pictures_taken es)
   \<and> length (out_queue s') \<le> OUT_QUEUE_MAXSIZE"
proof (induction es arbitrary: s)
  case Nil
  then show ?case by simp
next
  case (Cons e es)
  then obtain s1 where 1: "loop_step e s = Some s1" and 2: "run_schedule es s1 = Some s'"
    by (auto split: option.splits)
  note ih = Cons.IH[OF 2 sorted_step[OF 1 Cons.prems(2)] bound_step[OF 1 Cons.prems(3)]]
  have audio: "filter is_audio (handed_on s') @ holding (put_waiting s') =
     (filter is_audio (handed_on s) @ holding (put_waiting s))
       @ map pcm_frame (captured_while_silent (ai_speaking s) (e # es))"
    using ih audio_step[OF 1 Cons.prems(2)] captured_step[OF 1, of es] by simp
  have pictures: "filter (\<lambda>m. \<not> is_audio m) (handed_on s') @ holding (picture_waiting s') =
     (filter (\<lambda>m. \<not> is_audio m) (handed_on s) @ holding (picture_waiting s))
       @ map jpeg_frame (pictures_taken (e # es))"
    using ih picture_step[OF 1 Cons.prems(2)] pictures_step[of e es] by simp
  from audio pictures ih show ?case by blast
qed

text \<open>
  C8, as amended. The capture loop reads the flag once per iteration, right after the frame
  has been captured. A frame captured when the flag is true is discarded. A frame captured
  when the flag is false is wrapped as \<^verbatim>\<open>audio/pcm\<close> and put on the outbound queue, at once
  if the queue has room and otherwise when room is made, whatever the flag is by then. So in
  every run, in every mode, the audio frames sent, being sent, queued or held by the suspended
  \<^verbatim>\<open>put\<close> are, in order, the frames captured at a moment when the flag was false. The
  pictures of the camera or screen task go on the same queue as \<^verbatim>\<open>image/jpeg\<close> with no test
  of the flag, every one of them in order, and the queue never holds more than five
  messages.
\<close>

theorem capture_tests_flag_once:
  assumes "run_schedule es initial_loop = Some s"
  shows "filter is_audio (sent s @ holding (sending s) @ out_queue s) @ holding (put_waiting s)
           = map pcm_frame (captured_while_silent False es)
       \<and> filter (\<lambda>m. \<not> is_audio m) (sent s @ holding (sending s) @ out_queue s)
           @ holding (picture_waiting s)
           = map jpeg_frame (pictures_taken es)
       \<and> length (out_queue s) \<le> OUT_QUEUE_MAXSIZE"
proof -
  have start: "waiting_sorted initial_loop" "length (out_queue initial_loop) \<le> OUT_QUEUE_MAXSIZE"
    by (simp_all add: waiting_sorted_def holding_def initial_loop_def)
  have init: "handed_on initial_loop = []" "put_waiting initial_loop = None"
    "picture_waiting initial_loop = None" "ai_speaking initial_loop = False"
    by (simp_all add: handed_on_def holding_def initial_loop_def)
  from run_schedule_capture[OF assms start] init show ?thesis
    by (simp add: handed_on_def holding_def)
qed

text \<open>
  C8, as amended, on a run with the camera: frame 2 is captured while the flag is true and
  dropped, the picture taken at that time is queued.
\<close>

theorem capture_witness:
  "run_schedule
     [MicRead [1], PicturePut ''cGljMQ=='', ReceiveData [7], PlayDequeue, MicRead [2],
      PicturePut ''cGljMg=='', PlayWritten, MicRead [3], SendGet, SendDone]
     initial_loop
     = Some \<lparr>audio_in_queue = [],
              out_queue = [jpeg_frame ''cGljMQ=='', jpeg_frame ''cGljMg=='', pcm_frame [3]],
              ai_speaking = False, put_waiting = None, picture_waiting = None, sending = None,
              writing = None, played = [[7]], sent = [pcm_frame [1]]\<rparr>
   \<and> filter is_audio
         ([pcm_frame [1]] @ [] @ [jpeg_frame ''cGljMQ=='', jpeg_frame ''cGljMg=='', pcm_frame [3]]) @ []
       = map pcm_frame [[1], [3]]"
proof -
  let ?es = "[MicRead [1], PicturePut ''cGljMQ=='', ReceiveData [7], PlayDequeue, MicRead [2],
      PicturePut ''cGljMg=='', PlayWritten, MicRead [3], SendGet, SendDone]"
  let ?s = "\<lparr>audio_in_queue = [],
              out_queue = [jpeg_frame ''cGljMQ=='', jpeg_frame ''cGljMg=='', pcm_frame [3]],
              ai_speaking = False, put_waiting = None, picture_waiting = None, sending = None,
              writing = None, played = [[7]], sent = [pcm_frame [1]]\<rparr>"
  have run: "run_schedule ?es initial_loop = Some ?s"
    by (simp add: initial_loop_def OUT_QUEUE_MAXSIZE_def)
  from capture_tests_flag_once[OF run, THEN conjunct1] run show ?thesis
    by (simp add: holding_def)
qed

text \<open>
  C8 as stated fails. Frame 1 is being sent and frames 2 to 6 fill the queue; frame 7 is
  captured while the flag is false, and its \<^verbatim>\<open>put\<close> is suspended. The playback task then
  takes a chunk and sets the flag. When the send returns and the next message is taken from
  the queue, frame 7 is appended to it, while the flag is true.
\<close>

theorem frame_enqueued_while_speaking:
  "run_schedule
     [MicRead [1], SendGet, MicRead [2], MicRead [3], MicRead [4], MicRead [5], MicRead [6],
      MicRead [7], ReceiveData [9], PlayDequeue, SendDone, SendGet] initial_loop
     = Some \<lparr>audio_in_queue = [],
              out_queue = [pcm_frame [3], pcm_frame [4], pcm_frame [5], pcm_frame [6]],
              ai_speaking = True, put_waiting = Some (pcm_frame [7]), picture_waiting = None,
              sending = Some (pcm_frame [2]), writing = Some [9], played = [[9]],
              sent = [pcm_frame [1]]\<rparr>
   \<and> loop_step PutResume
         \<lparr>audio_in_queue = [],
          out_queue = [pcm_frame [3], pcm_frame [4], pcm_frame [5], pcm_frame [6]],
          ai_speaking = True, put_waiting = Some (pcm_frame [7]), picture_waiting = None,
          sending = Some (pcm_frame [2]), writing = Some [9], played = [[9]],
          sent = [pcm_frame [1]]\<rparr>
     = Some \<lparr>audio_in_queue = [],
              out_queue = [pcm_frame [3], pcm_frame [4], pcm_frame [5], pcm_frame [6],
                           pcm_frame [7]],
              ai_speaking = True, put_waiting = None, picture_waiting = None,
              sending = Some (pcm_frame [2]), writing = Some [9], played = [[9]],
              sent = [pcm_frame [1]]\<rparr>"
  by (simp add: initial_loop_def OUT_QUEUE_MAXSIZE_def)

end
